theory Spec2Isabelle
  imports Main "HOL-Library.Sublist" "HOL-Library.Log_Nat"
begin

section \<open>The REST statement-execution types (lib/rest/Types)\<close>

text \<open>
  The declarations of \<^verbatim>\<open>lib/rest/Types\<close> and of the Thrift catalogue are not part of
  the sources at hand; the shapes below are the ones \<^verbatim>\<open>RestDriver.ts\<close> reads and
  writes. An enumeration is a datatype; a value that is none of the members named in a
  \<^verbatim>\<open>switch\<close> (the \<^verbatim>\<open>default\<close> branch) is carried by one more constructor. An
  optional property is an \<open>option\<close>.
\<close>

datatype StatementState =
  Canceled | Closed | Failed | Pending | Running | Succeeded
  | UnrecognizedState string

datatype ColumnInfoTypeName =
  Array | Binary | Boolean | Byte | Char' | Date | Decimal | Double | Float | Int'
  | Interval | Long | Map | Null | Short | String | Struct | Timestamp | UserDefinedType
  | UnrecognizedTypeName string

datatype Disposition = Inline | ExternalLinks
datatype Format = JsonArray | ArrowStream | Csv
datatype TimeoutAction = Continue | Cancel

record ServiceError =
  error_code :: string
  message :: string

record StatementStatus =
  state :: StatementState
  error :: "ServiceError option"

record ColumnInfo =
  name :: string
  position :: int
  type_name :: ColumnInfoTypeName

record ResultSchema =
  column_count :: int
  columns :: "ColumnInfo list"

record ResultManifest =
  schema :: "ResultSchema option"

record ResultData =
  chunk_index :: "int option"
  next_chunk_index :: "int option"
  data_array :: "string list list option"

record ExecuteStatementResponse =
  statement_id :: string
  status :: StatementStatus
  manifest :: "ResultManifest option"
  result :: "ResultData option"

record ExecuteStatementRequest =
  catalog :: "string option"
  schema :: "string option"
  disposition :: Disposition
  format :: Format
  on_wait_timeout :: TimeoutAction
  wait_timeout :: string
  warehouse_id :: string
  statement :: string

section \<open>The RPC (Thrift) types the adapter builds\<close>

datatype TOperationState =
  INITIALIZED_STATE | RUNNING_STATE | FINISHED_STATE | CANCELED_STATE | CLOSED_STATE
  | ERROR_STATE | UKNOWN_STATE | PENDING_STATE | TIMEDOUT_STATE

datatype TTypeId =
  BOOLEAN_TYPE | TINYINT_TYPE | SMALLINT_TYPE | INT_TYPE | BIGINT_TYPE | FLOAT_TYPE
  | DOUBLE_TYPE | STRING_TYPE | TIMESTAMP_TYPE | BINARY_TYPE | ARRAY_TYPE | MAP_TYPE
  | STRUCT_TYPE | UNION_TYPE | USER_DEFINED_TYPE | DECIMAL_TYPE | NULL_TYPE | DATE_TYPE
  | VARCHAR_TYPE | CHAR_TYPE | INTERVAL_YEAR_MONTH_TYPE | INTERVAL_DAY_TIME_TYPE

datatype TStatusCode =
  SUCCESS_STATUS | SUCCESS_WITH_INFO_STATUS | STILL_EXECUTING_STATUS | ERROR_STATUS
  | INVALID_HANDLE_STATUS

datatype TOperationType = EXECUTE_STATEMENT
datatype TSparkRowSetType = ARROW_BASED_SET | COLUMN_BASED_SET | ROW_BASED_SET | URL_BASED_SET

record TStatus =
  statusCode :: TStatusCode
  errorMessage :: "string option"

record THandleIdentifier =
  guid :: "nat list"
  secret :: "nat list"

record TNamespace =
  catalogName :: "string option"
  schemaName :: "string option"

record TOpenSessionReq =
  client_protocol :: "int option"
  initialNamespace :: "TNamespace option"

record TOpenSessionResp =
  status :: TStatus
  serverProtocolVersion :: int
  sessionHandle :: THandleIdentifier

record TCloseSessionResp =
  status :: TStatus

record TExecuteStatementReq =
  statement :: string

record TOperationHandle =
  operationId :: THandleIdentifier
  operationType :: TOperationType
  hasResultSet :: bool

record TExecuteStatementResp =
  status :: TStatus
  operationHandle :: "TOperationHandle option"

datatype TTypeEntry = primitiveEntry TTypeId

record TColumnDesc =
  columnName :: string
  position :: int
  typeDesc :: "TTypeEntry list"

record TTableSchema =
  columns :: "TColumnDesc list"

record TGetResultSetMetadataResp =
  status :: TStatus
  resultFormat :: "TSparkRowSetType option"
  schema :: "TTableSchema option"

record TStringColumn =
  values' :: "string list"
  nulls :: "nat list"

record TColumn =
  stringVal :: "TStringColumn option"

record TRowSet =
  startRowOffset :: int
  rows :: "unit list"
  columns :: "TColumn list"
  columnCount :: nat

record TFetchResultsResp =
  status :: TStatus
  hasMoreRows :: "bool option"
  results :: "TRowSet option"

record TGetOperationStatusResp =
  status :: TStatus
  operationState :: "TOperationState option"
  errorCode :: "int option"
  errorMessage :: "string option"
  hasResultSet :: "bool option"

record TCancelOperationResp =
  status :: TStatus

record TCloseOperationResp =
  status :: TStatus

section \<open>Errors, the remote collaborator and the adapter's state\<close>

text \<open>
  A \<^verbatim>\<open>throw\<close> (or a rejected promise) is the \<open>Inl\<close> of a sum. \<open>Error\<close> carries the
  message of \<^verbatim>\<open>new Error(...)\<close>; \<open>TypeError\<close> is what the runtime raises when a property
  of \<^verbatim>\<open>undefined\<close> is read; \<open>NotImplementedError\<close> is the class of that name;
  \<open>RemoteFailure\<close> is a rejection of a call of the REST client.
\<close>

datatype JsError = Error string | TypeError | NotImplementedError | RemoteFailure string

datatype RestCall =
  ExecuteStatementCall ExecuteStatementRequest
  | GetStatementCall string
  | GetStatementResultChunkNCall string "int option"
  | CancelExecutionCall string

text \<open>
  The REST client is opaque: each of its methods is a function of the request and of the
  remote side's state \<open>'c\<close>, giving the awaited outcome and the remote side's next state.
\<close>

record 'c RestClient =
  getWarehouseId :: string
  executeStatement_rest ::
    "ExecuteStatementRequest \<Rightarrow> 'c \<Rightarrow> (JsError + ExecuteStatementResponse) \<times> 'c"
  getStatement_rest :: "string \<Rightarrow> 'c \<Rightarrow> (JsError + ExecuteStatementResponse) \<times> 'c"
  getStatementResultChunkN_rest ::
    "string \<Rightarrow> int option \<Rightarrow> 'c \<Rightarrow> (JsError + ResultData option) \<times> 'c"
  cancelExecution_rest :: "string \<Rightarrow> 'c \<Rightarrow> (JsError + unit) \<times> 'c"

text \<open>
  The three private fields of \<^verbatim>\<open>RestDriver\<close>, the remote side's state, and a log of the
  remote calls issued so far (the log is not in the code: it is what a mock of the client
  would record).
\<close>

record 'c RestDriver =
  session :: "TOpenSessionReq option"
  currentStatement :: "ExecuteStatementResponse option"
  currentResultChunk :: "ResultData option"
  remote :: 'c
  calls :: "RestCall list"

definition newRestDriver :: "'c \<Rightarrow> 'c RestDriver" where
  "newRestDriver c =
     \<lparr>session = None, currentStatement = None, currentResultChunk = None,
      remote = c, calls = []\<rparr>"

definition status_of :: "TStatusCode \<Rightarrow> TStatus" where
  "status_of c = \<lparr>statusCode = c, TStatus.errorMessage = None\<rparr>"

definition error_status :: "string \<Rightarrow> TStatus" where
  "error_status m = \<lparr>statusCode = ERROR_STATUS, TStatus.errorMessage = Some m\<rparr>"

definition zero_handle :: THandleIdentifier where
  "zero_handle = \<lparr>guid = replicate 16 0, secret = []\<rparr>"

text \<open>How a template literal renders a string that may be \<^verbatim>\<open>undefined\<close>.\<close>

definition template :: "string option \<Rightarrow> string" where
  "template s = (case s of None \<Rightarrow> ''undefined'' | Some t \<Rightarrow> t)"

section \<open>Enumeration translation\<close>

fun restOperationStateToThriftOperationState :: "StatementState \<Rightarrow> TOperationState" where
  "restOperationStateToThriftOperationState Canceled = CANCELED_STATE"
| "restOperationStateToThriftOperationState Closed = CLOSED_STATE"
| "restOperationStateToThriftOperationState Failed = ERROR_STATE"
| "restOperationStateToThriftOperationState Pending = PENDING_STATE"
| "restOperationStateToThriftOperationState Running = RUNNING_STATE"
| "restOperationStateToThriftOperationState Succeeded = FINISHED_STATE"
| "restOperationStateToThriftOperationState (UnrecognizedState s) = UKNOWN_STATE"

fun restTypeNameToThriftTypeId :: "ColumnInfoTypeName \<Rightarrow> TTypeId" where
  "restTypeNameToThriftTypeId Array = ARRAY_TYPE"
| "restTypeNameToThriftTypeId Binary = BINARY_TYPE"
| "restTypeNameToThriftTypeId Boolean = BOOLEAN_TYPE"
| "restTypeNameToThriftTypeId Byte = TINYINT_TYPE"
| "restTypeNameToThriftTypeId Char' = CHAR_TYPE"
| "restTypeNameToThriftTypeId Date = DATE_TYPE"
| "restTypeNameToThriftTypeId Decimal = DECIMAL_TYPE"
| "restTypeNameToThriftTypeId Double = DOUBLE_TYPE"
| "restTypeNameToThriftTypeId Float = FLOAT_TYPE"
| "restTypeNameToThriftTypeId Int' = INT_TYPE"
| "restTypeNameToThriftTypeId Interval = INTERVAL_DAY_TIME_TYPE"
| "restTypeNameToThriftTypeId Long = INT_TYPE"
| "restTypeNameToThriftTypeId Map = MAP_TYPE"
| "restTypeNameToThriftTypeId Null = NULL_TYPE"
| "restTypeNameToThriftTypeId Short = SMALLINT_TYPE"
| "restTypeNameToThriftTypeId String = STRING_TYPE"
| "restTypeNameToThriftTypeId Struct = STRUCT_TYPE"
| "restTypeNameToThriftTypeId Timestamp = TIMESTAMP_TYPE"
| "restTypeNameToThriftTypeId UserDefinedType = USER_DEFINED_TYPE"
| "restTypeNameToThriftTypeId (UnrecognizedTypeName s) = NULL_TYPE"

section \<open>Row-major to columnar conversion\<close>

text \<open>
  \<^verbatim>\<open>columns[i].stringVal?.values.push(cell)\<close>: reading \<^verbatim>\<open>stringVal\<close> of a missing
  accumulator (\<open>i\<close> beyond the array) throws; on an accumulator without \<^verbatim>\<open>stringVal\<close>
  the optional chain does nothing.
\<close>

definition push_cell :: "TColumn \<Rightarrow> string \<Rightarrow> TColumn" where
  "push_cell c v =
     (case stringVal c of
        None \<Rightarrow> c
      | Some sv \<Rightarrow> c\<lparr>stringVal := Some (sv\<lparr>values' := values' sv @ [v]\<rparr>)\<rparr>)"

text \<open>The inner \<^verbatim>\<open>for\<close> loop, at index \<open>i\<close> with the cells \<open>row[i..]\<close> still to go.\<close>

fun push_row :: "TColumn list \<Rightarrow> nat \<Rightarrow> string list \<Rightarrow> JsError + TColumn list" where
  "push_row cols i [] = Inr cols"
| "push_row cols i (v # vs) =
     (if i < length cols then push_row (cols[i := push_cell (cols ! i) v]) (Suc i) vs
      else Inl TypeError)"

text \<open>The \<^verbatim>\<open>forEach\<close> over the rows; a throw ends it.\<close>

fun push_rows :: "TColumn list \<Rightarrow> string list list \<Rightarrow> JsError + TColumn list" where
  "push_rows cols [] = Inr cols"
| "push_rows cols (r # rs) =
     (case push_row cols 0 r of Inl e \<Rightarrow> Inl e | Inr cols' \<Rightarrow> push_rows cols' rs)"

definition empty_column :: TColumn where
  "empty_column = \<lparr>stringVal = Some \<lparr>values' = [], nulls = []\<rparr>\<rparr>"

definition restJsonResultToThriftColumnar :: "ResultSchema \<Rightarrow> ResultData \<Rightarrow> JsError + TRowSet" where
  "restJsonResultToThriftColumnar sch res =
     (let cols0 = map (\<lambda>_. empty_column) (ResultSchema.columns sch) in
      case (case data_array res of None \<Rightarrow> Inr cols0 | Some rs \<Rightarrow> push_rows cols0 rs) of
        Inl e \<Rightarrow> Inl e
      | Inr cols \<Rightarrow>
          Inr \<lparr>startRowOffset = 0, rows = [], TRowSet.columns = cols,
               columnCount = length cols\<rparr>)"

section \<open>The adapter's operations\<close>

text \<open>
  Every operation takes the adapter's state and returns the awaited outcome (\<open>Inl\<close> when
  the promise rejects) with the state it leaves behind. Request parameters that the code
  never reads are left out.
\<close>

definition processStatementStatus ::
  "StatementStatus \<Rightarrow> 'c RestDriver \<Rightarrow> (JsError + unit) \<times> 'c RestDriver" where
  "processStatementStatus st d =
     (case state st of
        Canceled \<Rightarrow> (Inr (), d\<lparr>currentStatement := None\<rparr>)
      | Closed \<Rightarrow> (Inr (), d\<lparr>currentStatement := None\<rparr>)
      | Failed \<Rightarrow>
          (case error st of
             None \<Rightarrow> (Inl TypeError, d)
           | Some e \<Rightarrow> (Inl (Error (error_code e @ '': '' @ message e)), d))
      | _ \<Rightarrow> (Inr (), d))"

text \<open>\<^verbatim>\<open>request.client_protocol || dflt\<close>: \<^verbatim>\<open>undefined\<close> and \<^verbatim>\<open>0\<close> are both falsy.\<close>

definition protocol_or :: "int option \<Rightarrow> int \<Rightarrow> int" where
  "protocol_or p dflt =
     (case p of None \<Rightarrow> dflt | Some v \<Rightarrow> if v = 0 then dflt else v)"

text \<open>
  The first parameter stands for \<^verbatim>\<open>TProtocolVersion.SPARK_CLI_SERVICE_PROTOCOL_V6\<close>, whose
  declaration is in the Thrift catalogue.
\<close>

definition openSession ::
  "int \<Rightarrow> TOpenSessionReq \<Rightarrow> 'c RestDriver \<Rightarrow> (JsError + TOpenSessionResp) \<times> 'c RestDriver" where
  "openSession SPARK_CLI_SERVICE_PROTOCOL_V6 request d =
     (Inr \<lparr>TOpenSessionResp.status = status_of SUCCESS_STATUS,
           serverProtocolVersion =
             protocol_or (client_protocol request) SPARK_CLI_SERVICE_PROTOCOL_V6,
           sessionHandle = zero_handle\<rparr>,
      d\<lparr>session := Some request\<rparr>)"

definition closeSession :: "'c RestDriver \<Rightarrow> (JsError + TCloseSessionResp) \<times> 'c RestDriver" where
  "closeSession d =
     (Inr \<lparr>TCloseSessionResp.status = status_of SUCCESS_STATUS\<rparr>, d\<lparr>session := None\<rparr>)"

definition session_catalog :: "'c RestDriver \<Rightarrow> string option" where
  "session_catalog d =
     (case session d of
        None \<Rightarrow> None
      | Some s \<Rightarrow> (case initialNamespace s of None \<Rightarrow> None | Some ns \<Rightarrow> catalogName ns))"

definition session_schema :: "'c RestDriver \<Rightarrow> string option" where
  "session_schema d =
     (case session d of
        None \<Rightarrow> None
      | Some s \<Rightarrow> (case initialNamespace s of None \<Rightarrow> None | Some ns \<Rightarrow> schemaName ns))"

definition execute_request :: "'c RestClient \<Rightarrow> TExecuteStatementReq \<Rightarrow> 'c RestDriver \<Rightarrow> ExecuteStatementRequest" where
  "execute_request cl request d =
     \<lparr>catalog = session_catalog d,
      ExecuteStatementRequest.schema = session_schema d,
      disposition = Inline,
      format = JsonArray,
      on_wait_timeout = Continue,
      wait_timeout = ''5s'',
      warehouse_id = getWarehouseId cl,
      ExecuteStatementRequest.statement = TExecuteStatementReq.statement request\<rparr>"

definition has_chunk_index :: "ExecuteStatementResponse \<Rightarrow> bool" where
  "has_chunk_index cs =
     (case result cs of None \<Rightarrow> False | Some r \<Rightarrow> chunk_index r \<noteq> None)"

definition executeStatement ::
  "'c RestClient \<Rightarrow> TExecuteStatementReq \<Rightarrow> 'c RestDriver
     \<Rightarrow> (JsError + TExecuteStatementResp) \<times> 'c RestDriver" where
  "executeStatement cl request d =
     (let rq = execute_request cl request d;
          (r, c') = executeStatement_rest cl rq (remote d);
          d1 = d\<lparr>remote := c', calls := calls d @ [ExecuteStatementCall rq]\<rparr>
      in case r of
           Inl e \<Rightarrow> (Inl e, d1)
         | Inr resp \<Rightarrow>
             (case processStatementStatus (ExecuteStatementResponse.status resp)
                     (d1\<lparr>currentStatement := Some resp\<rparr>) of
                (Inl e, d2) \<Rightarrow> (Inl e, d2)
              | (Inr u, d2) \<Rightarrow>
                  (case currentStatement d2 of
                     None \<Rightarrow>
                       (Inr \<lparr>TExecuteStatementResp.status = status_of INVALID_HANDLE_STATUS,
                             operationHandle = None\<rparr>, d2)
                   | Some cs \<Rightarrow>
                       (Inr \<lparr>TExecuteStatementResp.status = status_of SUCCESS_STATUS,
                             operationHandle =
                               Some \<lparr>operationId = zero_handle,
                                     operationType = EXECUTE_STATEMENT,
                                     TOperationHandle.hasResultSet = has_chunk_index cs\<rparr>\<rparr>,
                        d2))))"

definition manifest_columns :: "ExecuteStatementResponse \<Rightarrow> ColumnInfo list" where
  "manifest_columns cs =
     (case manifest cs of
        None \<Rightarrow> []
      | Some m \<Rightarrow>
          (case ResultManifest.schema m of None \<Rightarrow> [] | Some s \<Rightarrow> ResultSchema.columns s))"

text \<open>
  A number of the program is an IEEE double. A column position is modelled by the integer
  it denotes, and \<open>round_to_double n\<close> is the double nearest to the integer \<open>n\<close>, ties
  to the even mantissa: integers up to \<open>2 ^ 53\<close> in magnitude are doubles themselves;
  beyond, the 53 leading bits are kept (\<open>floorlog 2\<close> is the bit length) and the rest is
  rounded. \<^verbatim>\<open>column.position + 1\<close> is the sum rounded so.
\<close>

definition round_to_double :: "int \<Rightarrow> int" where
  "round_to_double n =
     (let a = \<bar>n\<bar> in
      if a \<le> 2 ^ 53 then n
      else
        (let u = 2 ^ (floorlog 2 (nat a) - 53);
             q = a div u;
             r = a mod u;
             q' = (if 2 * r < u \<or> (2 * r = u \<and> even q) then q else q + 1)
         in sgn n * (q' * u)))"

text \<open>One descriptor of \<^verbatim>\<open>getResultSetMetadata\<close>.\<close>

definition column_desc :: "ColumnInfo \<Rightarrow> TColumnDesc" where
  "column_desc column =
     \<lparr>columnName = name column,
      TColumnDesc.position = round_to_double (ColumnInfo.position column + 1),
      typeDesc = [primitiveEntry (restTypeNameToThriftTypeId (type_name column))]\<rparr>"

definition getResultSetMetadata ::
  "'c RestDriver \<Rightarrow> (JsError + TGetResultSetMetadataResp) \<times> 'c RestDriver" where
  "getResultSetMetadata d =
     (case currentStatement d of
        None \<Rightarrow>
          (Inr \<lparr>TGetResultSetMetadataResp.status = error_status ''Invalid handle'',
                resultFormat = None, TGetResultSetMetadataResp.schema = None\<rparr>, d)
      | Some cs \<Rightarrow>
          (Inr \<lparr>TGetResultSetMetadataResp.status = status_of SUCCESS_STATUS,
                resultFormat = Some COLUMN_BASED_SET,
                TGetResultSetMetadataResp.schema =
                  Some \<lparr>TTableSchema.columns = map column_desc (manifest_columns cs)\<rparr>\<rparr>,
           d))"

definition default_schema :: ResultSchema where
  "default_schema = \<lparr>column_count = 0, ResultSchema.columns = []\<rparr>"

definition schema_or_default :: "ExecuteStatementResponse \<Rightarrow> ResultSchema" where
  "schema_or_default cs =
     (case manifest cs of
        None \<Rightarrow> default_schema
      | Some m \<Rightarrow>
          (case ResultManifest.schema m of None \<Rightarrow> default_schema | Some s \<Rightarrow> s))"

text \<open>
  The first half of \<^verbatim>\<open>fetchResults\<close>: which chunk becomes \<^verbatim>\<open>currentResultChunk\<close>, the
  statement's own result when no chunk is held, else the remote side's answer for the
  held chunk's \<^verbatim>\<open>next_chunk_index\<close>.
\<close>

definition next_chunk ::
  "'c RestClient \<Rightarrow> ExecuteStatementResponse \<Rightarrow> 'c RestDriver
     \<Rightarrow> (JsError + ResultData option) \<times> 'c RestDriver" where
  "next_chunk cl cs d =
     (case currentResultChunk d of
        None \<Rightarrow> (Inr (result cs), d)
      | Some ch \<Rightarrow>
          (let (r, c') =
                 getStatementResultChunkN_rest cl (statement_id cs) (next_chunk_index ch)
                   (remote d)
           in (r, d\<lparr>remote := c',
                    calls := calls d @
                      [GetStatementResultChunkNCall (statement_id cs) (next_chunk_index ch)]\<rparr>)))"

definition fetchResults ::
  "'c RestClient \<Rightarrow> 'c RestDriver \<Rightarrow> (JsError + TFetchResultsResp) \<times> 'c RestDriver" where
  "fetchResults cl d =
     (case currentStatement d of
        None \<Rightarrow>
          (Inr \<lparr>TFetchResultsResp.status = error_status ''Invalid handle'',
                hasMoreRows = None, results = None\<rparr>, d)
      | Some cs \<Rightarrow>
          (case next_chunk cl cs d of
             (Inl e, d1) \<Rightarrow> (Inl e, d1)
           | (Inr chunk, d1) \<Rightarrow>
               (let d2 = d1\<lparr>currentResultChunk := chunk\<rparr> in
                case chunk of
                  None \<Rightarrow>
                    (Inr \<lparr>TFetchResultsResp.status = error_status ''No more data'',
                          hasMoreRows = None, results = None\<rparr>, d2)
                | Some ch \<Rightarrow>
                    (case restJsonResultToThriftColumnar (schema_or_default cs) ch of
                       Inl e \<Rightarrow> (Inl e, d2)
                     | Inr rs \<Rightarrow>
                         (Inr \<lparr>TFetchResultsResp.status = status_of SUCCESS_STATUS,
                               hasMoreRows = Some (next_chunk_index ch \<noteq> None),
                               results = Some rs\<rparr>, d2)))))"

text \<open>
  The refresh at the head of \<^verbatim>\<open>getOperationStatus\<close>: only for a tracked statement
  without a manifest. The tracked object is updated in place, then its status is
  processed.
\<close>

definition refresh_statement ::
  "'c RestClient \<Rightarrow> 'c RestDriver \<Rightarrow> (JsError + unit) \<times> 'c RestDriver" where
  "refresh_statement cl d =
     (case currentStatement d of
        None \<Rightarrow> (Inr (), d)
      | Some cs \<Rightarrow>
          if manifest cs = None then
            (let (r, c') = getStatement_rest cl (statement_id cs) (remote d);
                 d1 = d\<lparr>remote := c', calls := calls d @ [GetStatementCall (statement_id cs)]\<rparr>
             in case r of
                  Inl e \<Rightarrow> (Inl e, d1)
                | Inr response \<Rightarrow>
                    (let cs' = cs\<lparr>ExecuteStatementResponse.status :=
                                     ExecuteStatementResponse.status response,
                                   manifest := manifest response,
                                   result := result response\<rparr>
                     in processStatementStatus (ExecuteStatementResponse.status cs')
                          (d1\<lparr>currentStatement := Some cs'\<rparr>)))
          else (Inr (), d))"

definition status_error_message :: "StatementStatus \<Rightarrow> string" where
  "status_error_message st =
     template (map_option error_code (error st)) @ '': '' @
     template (map_option message (error st))"

definition getOperationStatus ::
  "'c RestClient \<Rightarrow> 'c RestDriver \<Rightarrow> (JsError + TGetOperationStatusResp) \<times> 'c RestDriver" where
  "getOperationStatus cl d =
     (case refresh_statement cl d of
        (Inl e, d1) \<Rightarrow> (Inl e, d1)
      | (Inr u, d1) \<Rightarrow>
          (case currentStatement d1 of
             None \<Rightarrow>
               (Inr \<lparr>TGetOperationStatusResp.status = error_status ''Invalid handle'',
                     operationState = None, errorCode = None,
                     TGetOperationStatusResp.errorMessage = None,
                     TGetOperationStatusResp.hasResultSet = None\<rparr>, d1)
           | Some cs \<Rightarrow>
               (Inr \<lparr>TGetOperationStatusResp.status = status_of SUCCESS_STATUS,
                     operationState =
                       Some (restOperationStateToThriftOperationState
                               (state (ExecuteStatementResponse.status cs))),
                     errorCode = Some 0,
                     TGetOperationStatusResp.errorMessage =
                       Some (status_error_message (ExecuteStatementResponse.status cs)),
                     TGetOperationStatusResp.hasResultSet = Some (result cs \<noteq> None)\<rparr>,
                d1)))"

definition cancelOperation ::
  "'c RestClient \<Rightarrow> 'c RestDriver \<Rightarrow> (JsError + TCancelOperationResp) \<times> 'c RestDriver" where
  "cancelOperation cl d =
     (case currentStatement d of
        None \<Rightarrow> (Inr \<lparr>TCancelOperationResp.status = status_of SUCCESS_STATUS\<rparr>, d)
      | Some cs \<Rightarrow>
          (let (r, c') = cancelExecution_rest cl (statement_id cs) (remote d);
               d1 = d\<lparr>remote := c', calls := calls d @ [CancelExecutionCall (statement_id cs)]\<rparr>
           in case r of
                Inl e \<Rightarrow> (Inl e, d1)
              | Inr u \<Rightarrow>
                  (Inr \<lparr>TCancelOperationResp.status = status_of SUCCESS_STATUS\<rparr>,
                   d1\<lparr>currentStatement := None\<rparr>)))"

definition closeOperation ::
  "'c RestDriver \<Rightarrow> (JsError + TCloseOperationResp) \<times> 'c RestDriver" where
  "closeOperation d =
     (Inr \<lparr>TCloseOperationResp.status = status_of SUCCESS_STATUS\<rparr>,
      d\<lparr>currentStatement := None\<rparr>)"


text \<open>
  \<^verbatim>\<open>getInfo\<close>, \<^verbatim>\<open>getTypeInfo\<close>, \<^verbatim>\<open>getCatalogs\<close>, \<^verbatim>\<open>getSchemas\<close>, \<^verbatim>\<open>getTables\<close>,
  \<^verbatim>\<open>getTableTypes\<close>, \<^verbatim>\<open>getColumns\<close>, \<^verbatim>\<open>getFunctions\<close>, \<^verbatim>\<open>getPrimaryKeys\<close>,
  \<^verbatim>\<open>getCrossReference\<close> and the three delegation-token operations all have this body.
\<close>

definition unsupported :: "'c RestDriver \<Rightarrow> (JsError + 'a) \<times> 'c RestDriver" where
  "unsupported d = (Inl NotImplementedError, d)"

section \<open>Auxiliary notions for the statements below\<close>

text \<open>The rows of a chunk; a chunk without \<^verbatim>\<open>data_array\<close> has none.\<close>

definition chunk_rows :: "ResultData \<Rightarrow> string list list" where
  "chunk_rows res = (case data_array res of None \<Rightarrow> [] | Some rs \<Rightarrow> rs)"

text \<open>
  A remote side without state of its own, as a mock would be set up: what it answers
  depends on the request only.
\<close>

definition stateless_client ::
  "(ExecuteStatementRequest \<Rightarrow> JsError + ExecuteStatementResponse)
     \<Rightarrow> (string \<Rightarrow> JsError + ExecuteStatementResponse)
     \<Rightarrow> (string \<Rightarrow> int option \<Rightarrow> JsError + ResultData option)
     \<Rightarrow> unit RestClient" where
  "stateless_client exec get chunk =
     \<lparr>getWarehouseId = ''warehouse'',
      executeStatement_rest = (\<lambda>rq c. (exec rq, c)),
      getStatement_rest = (\<lambda>sid c. (get sid, c)),
      getStatementResultChunkN_rest = (\<lambda>sid i c. (chunk sid i, c)),
      cancelExecution_rest = (\<lambda>sid c. (Inr (), c))\<rparr>"

definition string_column :: "string list \<Rightarrow> TColumn" where
  "string_column vs = \<lparr>stringVal = Some \<lparr>values' = vs, nulls = []\<rparr>\<rparr>"

text \<open>
  Concrete data for the closed instances: a two-column schema, a chunk of two rows with a
  next-chunk pointer, and a remote side that answers every execute request with a
  succeeded statement named after the statement text, whose first chunk holds that text
  as its only cell, and every chunk request with one further, final chunk.
\<close>

definition example_schema :: ResultSchema where
  "example_schema =
     \<lparr>column_count = 2,
      ResultSchema.columns =
        [\<lparr>name = ''id'', ColumnInfo.position = 0, type_name = Long\<rparr>,
         \<lparr>name = ''label'', ColumnInfo.position = 1, type_name = String\<rparr>]\<rparr>"

definition example_chunk :: ResultData where
  "example_chunk =
     \<lparr>chunk_index = Some 0, next_chunk_index = Some 1,
      data_array = Some [[''1'', ''a''], [''2'', ''b'']]\<rparr>"

definition example_statement ::
  "StatementState \<Rightarrow> ResultManifest option \<Rightarrow> ResultData option \<Rightarrow> ExecuteStatementResponse" where
  "example_statement st mf res =
     \<lparr>statement_id = ''stmt-1'',
      ExecuteStatementResponse.status = \<lparr>state = st, error = None\<rparr>,
      manifest = mf, result = res\<rparr>"

definition one_column_schema :: ResultSchema where
  "one_column_schema =
     \<lparr>column_count = 1,
      ResultSchema.columns = [\<lparr>name = ''c'', ColumnInfo.position = 0, type_name = String\<rparr>]\<rparr>"

definition echo_execute :: "ExecuteStatementRequest \<Rightarrow> JsError + ExecuteStatementResponse" where
  "echo_execute rq =
     Inr \<lparr>statement_id = ExecuteStatementRequest.statement rq,
          ExecuteStatementResponse.status = \<lparr>state = Succeeded, error = None\<rparr>,
          manifest = Some \<lparr>ResultManifest.schema = Some one_column_schema\<rparr>,
          result = Some \<lparr>chunk_index = Some 0, next_chunk_index = Some 1,
                         data_array = Some [[ExecuteStatementRequest.statement rq]]\<rparr>\<rparr>"

definition echo_chunk :: "string \<Rightarrow> int option \<Rightarrow> JsError + ResultData option" where
  "echo_chunk sid i =
     Inr (Some \<lparr>chunk_index = i, next_chunk_index = None,
                data_array = Some [[''more of '' @ sid]]\<rparr>)"

definition echo_client :: "unit RestClient" where
  "echo_client = stateless_client echo_execute (\<lambda>sid. Inl (RemoteFailure ''unused'')) echo_chunk"

definition tracking :: "ExecuteStatementResponse \<Rightarrow> unit RestDriver" where
  "tracking cs = (newRestDriver ())\<lparr>currentStatement := Some cs\<rparr>"

text \<open>
  Polling: whether the next \<open>getOperationStatus\<close> has a statement without a manifest
  before it, and \<open>n\<close> calls of \<open>getOperationStatus\<close> in a row, as a caller waiting for the
  statement does them (outcomes dropped, the state carried on).
\<close>

definition needs_refresh :: "'c RestDriver \<Rightarrow> bool" where
  "needs_refresh d =
     (case currentStatement d of None \<Rightarrow> False | Some cs \<Rightarrow> manifest cs = None)"

fun repeat_getOperationStatus :: "'c RestClient \<Rightarrow> nat \<Rightarrow> 'c RestDriver \<Rightarrow> 'c RestDriver" where
  "repeat_getOperationStatus cl 0 d = d"
| "repeat_getOperationStatus cl (Suc n) d =
     snd (getOperationStatus cl (repeat_getOperationStatus cl n d))"

text \<open>
  A remote side on which every statement stays pending, without a manifest, and whose
  state is the number of get-statement requests it has served.
\<close>

definition counting_client :: "nat RestClient" where
  "counting_client =
     \<lparr>getWarehouseId = ''warehouse'',
      executeStatement_rest = (\<lambda>rq c. (echo_execute rq, c)),
      getStatement_rest =
        (\<lambda>sid c. (Inr \<lparr>statement_id = sid,
                          ExecuteStatementResponse.status = \<lparr>state = Pending, error = None\<rparr>,
                          manifest = None, result = None\<rparr>, Suc c)),
      getStatementResultChunkN_rest = (\<lambda>sid i c. (echo_chunk sid i, c)),
      cancelExecution_rest = (\<lambda>sid c. (Inr (), c))\<rparr>"

definition polled :: "nat RestDriver" where
  "polled = (newRestDriver 0)\<lparr>currentStatement := Some (example_statement Pending None None)\<rparr>"

text \<open>A remote side on which every statement has failed with code 42.\<close>

definition failed_status :: StatementStatus where
  "failed_status = \<lparr>state = Failed, error = Some \<lparr>error_code = ''42'', message = ''syntax error''\<rparr>\<rparr>"

definition failing_client :: "unit RestClient" where
  "failing_client =
     stateless_client
       (\<lambda>rq. Inr \<lparr>statement_id = ''stmt-1'', ExecuteStatementResponse.status = failed_status,
                   manifest = None, result = None\<rparr>)
       (\<lambda>sid. Inr \<lparr>statement_id = sid, ExecuteStatementResponse.status = failed_status,
                    manifest = None, result = None\<rparr>)
       echo_chunk"

text \<open>The two error responses of \<open>fetchResults\<close>, and a remote side that has no further chunk.\<close>

definition invalid_handle_resp :: TFetchResultsResp where
  "invalid_handle_resp =
     \<lparr>TFetchResultsResp.status = error_status ''Invalid handle'', hasMoreRows = None, results = None\<rparr>"

definition no_more_data_resp :: TFetchResultsResp where
  "no_more_data_resp =
     \<lparr>TFetchResultsResp.status = error_status ''No more data'', hasMoreRows = None, results = None\<rparr>"

definition exhausted_client :: "unit RestClient" where
  "exhausted_client =
     stateless_client echo_execute (\<lambda>sid. Inl (RemoteFailure ''unused'')) (\<lambda>sid i. Inr None)"

text \<open>
  A session of two statements on the echoing remote side: execute \<open>A\<close>, fetch its first
  chunk, close the operation, execute \<open>B\<close>. \<open>first_chunk_of txt\<close> is the chunk that side
  attaches to the statement with text \<open>txt\<close>.
\<close>

definition run_A_close_B :: "unit RestDriver" where
  "run_A_close_B =
     (let d1 = snd (executeStatement echo_client \<lparr>TExecuteStatementReq.statement = ''A''\<rparr>
                     (newRestDriver ()));
          d2 = snd (fetchResults echo_client d1);
          d3 = snd (closeOperation d2)
      in snd (executeStatement echo_client \<lparr>TExecuteStatementReq.statement = ''B''\<rparr> d3))"

definition first_chunk_of :: "string \<Rightarrow> ResultData" where
  "first_chunk_of txt =
     \<lparr>chunk_index = Some 0, next_chunk_index = Some 1, data_array = Some [[txt]]\<rparr>"

section \<open>Properties of the conversion loops\<close>

lemma push_row_ok:
  "i + length vs \<le> length cols \<Longrightarrow>
     \<exists>cols'. push_row cols i vs = Inr cols' \<and> length cols' = length cols
       \<and> (\<forall>j < length cols. cols' ! j =
             (if i \<le> j \<and> j < i + length vs then push_cell (cols ! j) (vs ! (j - i)) else cols ! j))"
proof (induction vs arbitrary: cols i)
  case Nil
  then show ?case by auto
next
  case (Cons v vs)
  let ?c = "cols[i := push_cell (cols ! i) v]"
  from Cons.prems have i: "i < length cols" and le: "Suc i + length vs \<le> length ?c" by simp_all
  from Cons.IH [OF le] obtain cols' where
    r: "push_row ?c (Suc i) vs = Inr cols'" and l: "length cols' = length cols"
    and n: "\<forall>j < length ?c. cols' ! j =
             (if Suc i \<le> j \<and> j < Suc i + length vs then push_cell (?c ! j) (vs ! (j - Suc i)) else ?c ! j)"
    by auto
  have "\<forall>j < length cols. cols' ! j =
      (if i \<le> j \<and> j < i + length (v # vs) then push_cell (cols ! j) ((v # vs) ! (j - i)) else cols ! j)"
  proof (intro allI impI)
    fix j assume j: "j < length cols"
    show "cols' ! j =
      (if i \<le> j \<and> j < i + length (v # vs) then push_cell (cols ! j) ((v # vs) ! (j - i)) else cols ! j)"
    proof (cases "j = i")
      case True
      with n j i show ?thesis by simp
    next
      case False
      with n j i show ?thesis by (auto simp: nth_Cons')
    qed
  qed
  with r l i show ?case by simp
qed

lemma push_row_fail:
  "i \<le> length cols \<Longrightarrow> length cols < i + length vs \<Longrightarrow> push_row cols i vs = Inl TypeError"
  by (induction vs arbitrary: cols i) auto

lemma push_row_length:
  "push_row cols i vs = Inr cols' \<Longrightarrow> length cols' = length cols"
  by (induction vs arbitrary: cols i) (auto split: if_splits)

lemma push_rows_length:
  "push_rows cols rs = Inr cols' \<Longrightarrow> length cols' = length cols"
  by (induction rs arbitrary: cols) (auto split: sum.splits dest: push_row_length)

lemma push_rows_Inl:
  "push_rows cols rs = Inl e \<longleftrightarrow> e = TypeError \<and> (\<exists>r \<in> set rs. length cols < length r)"
proof (induction rs arbitrary: cols)
  case Nil
  then show ?case by simp
next
  case (Cons r rs)
  show ?case
  proof (cases "length r \<le> length cols")
    case True
    with push_row_ok [of 0 r cols] obtain cols' where
      r: "push_row cols 0 r = Inr cols'" and l: "length cols' = length cols" by auto
    with Cons.IH [of cols'] True show ?thesis by auto
  next
    case False
    then have "push_row cols 0 r = Inl TypeError" by (simp add: push_row_fail)
    with False show ?thesis by auto
  qed
qed


lemma push_rows_nth:
  "\<forall>r \<in> set rs. length r \<le> length cols \<Longrightarrow>
     \<exists>cols'. push_rows cols rs = Inr cols' \<and> length cols' = length cols
       \<and> (\<forall>j < length cols. cols' ! j =
             foldl push_cell (cols ! j) (map (\<lambda>r. r ! j) (filter (\<lambda>r. j < length r) rs)))"
proof (induction rs arbitrary: cols)
  case Nil
  then show ?case by simp
next
  case (Cons r rs)
  from Cons.prems have "0 + length r \<le> length cols" by simp
  from push_row_ok [OF this] obtain c1 where
    r: "push_row cols 0 r = Inr c1" and l: "length c1 = length cols"
    and n: "\<forall>j < length cols. c1 ! j = (if j < length r then push_cell (cols ! j) (r ! j) else cols ! j)"
    by auto
  from Cons.prems l have "\<forall>r \<in> set rs. length r \<le> length c1" by simp
  from Cons.IH [OF this] obtain c2 where
    r2: "push_rows c1 rs = Inr c2" and l2: "length c2 = length c1"
    and n2: "\<forall>j < length c1. c2 ! j =
             foldl push_cell (c1 ! j) (map (\<lambda>r. r ! j) (filter (\<lambda>r. j < length r) rs))"
    by auto
  from r r2 l l2 n n2 show ?case by simp
qed

lemma foldl_push_cell:
  "stringVal c = Some sv \<Longrightarrow>
     foldl push_cell c vs = c\<lparr>stringVal := Some (sv\<lparr>values' := values' sv @ vs\<rparr>)\<rparr>"
proof (induction vs arbitrary: c sv)
  case Nil
  then show ?case by simp
next
  case (Cons v vs)
  let ?sv = "sv\<lparr>values' := values' sv @ [v]\<rparr>"
  from Cons.prems have pc: "push_cell c v = c\<lparr>stringVal := Some ?sv\<rparr>"
    by (simp add: push_cell_def)
  have "stringVal (push_cell c v) = Some ?sv" by (simp add: pc)
  from Cons.IH [OF this] show ?case by (simp add: pc)
qed

lemma foldl_push_cell_empty:
  "foldl push_cell empty_column vs = \<lparr>stringVal = Some \<lparr>values' = vs, nulls = []\<rparr>\<rparr>"
  using foldl_push_cell [of empty_column "\<lparr>values' = [], nulls = []\<rparr>" vs]
  by (simp add: empty_column_def)

lemma columnar_ok:
  assumes "\<forall>r \<in> set (chunk_rows res). length r \<le> length (ResultSchema.columns sch)"
  shows "\<exists>rowset. restJsonResultToThriftColumnar sch res = Inr rowset
     \<and> length (TRowSet.columns rowset) = length (ResultSchema.columns sch)
     \<and> columnCount rowset = length (ResultSchema.columns sch)
     \<and> (\<forall>j < length (ResultSchema.columns sch). TRowSet.columns rowset ! j =
           \<lparr>stringVal = Some \<lparr>values' = map (\<lambda>r. r ! j) (filter (\<lambda>r. j < length r) (chunk_rows res)),
                               nulls = []\<rparr>\<rparr>)"
proof (cases "data_array res")
  case None
  then show ?thesis
    by (simp add: restJsonResultToThriftColumnar_def chunk_rows_def foldl_push_cell_empty [of "[]", simplified])
next
  case (Some rs)
  let ?c0 = "map (\<lambda>_. empty_column) (ResultSchema.columns sch)"
  from assms Some have "\<forall>r \<in> set rs. length r \<le> length ?c0" by (simp add: chunk_rows_def)
  from push_rows_nth [OF this] obtain cols' where
    "push_rows ?c0 rs = Inr cols'" "length cols' = length ?c0"
    "\<forall>j < length ?c0. cols' ! j =
        foldl push_cell (?c0 ! j) (map (\<lambda>r. r ! j) (filter (\<lambda>r. j < length r) rs))"
    by blast
  with Some show ?thesis
    by (simp add: restJsonResultToThriftColumnar_def chunk_rows_def foldl_push_cell_empty)
qed

lemma columnar_Inl:
  "restJsonResultToThriftColumnar sch res = Inl e \<longleftrightarrow>
     e = TypeError \<and> (\<exists>r \<in> set (chunk_rows res). length (ResultSchema.columns sch) < length r)"
proof (cases "data_array res")
  case None
  then show ?thesis by (simp add: restJsonResultToThriftColumnar_def chunk_rows_def)
next
  case (Some rs)
  let ?c0 = "map (\<lambda>_. empty_column) (ResultSchema.columns sch)"
  have "restJsonResultToThriftColumnar sch res = Inl e \<longleftrightarrow> push_rows ?c0 rs = Inl e"
    using Some by (simp add: restJsonResultToThriftColumnar_def split: sum.splits)
  with Some show ?thesis by (simp add: push_rows_Inl chunk_rows_def)
qed


lemma fetchResults_converts:
  assumes "currentStatement d = Some cs" and "next_chunk cl cs d = (Inr (Some ch), d1)"
  shows "fetchResults cl d =
           (case restJsonResultToThriftColumnar (schema_or_default cs) ch of
              Inl e \<Rightarrow> Inl e
            | Inr rs \<Rightarrow>
                Inr \<lparr>TFetchResultsResp.status = status_of SUCCESS_STATUS,
                      hasMoreRows = Some (next_chunk_index ch \<noteq> None),
                      results = Some rs\<rparr>,
            d1\<lparr>currentResultChunk := Some ch\<rparr>)"
  using assms by (simp add: fetchResults_def split: sum.splits)

lemma schema_or_default_missing:
  "manifest cs = None \<or> (\<exists>m. manifest cs = Some m \<and> ResultManifest.schema m = None) \<Longrightarrow>
     schema_or_default cs = default_schema"
  by (auto simp: schema_or_default_def)

section \<open>Enumeration translation: the tables\<close>

text \<open>
  C5. The state mapping sends Canceled, Closed, Failed, Pending, Running and Succeeded to
  CANCELED, CLOSED, ERROR, PENDING, RUNNING and FINISHED, and every other state to the
  unknown state. It is a total function into the RPC states: no input makes it raise.
\<close>

theorem restOperationStateToThriftOperationState_table:
  "restOperationStateToThriftOperationState Canceled = CANCELED_STATE
   \<and> restOperationStateToThriftOperationState Closed = CLOSED_STATE
   \<and> restOperationStateToThriftOperationState Failed = ERROR_STATE
   \<and> restOperationStateToThriftOperationState Pending = PENDING_STATE
   \<and> restOperationStateToThriftOperationState Running = RUNNING_STATE
   \<and> restOperationStateToThriftOperationState Succeeded = FINISHED_STATE
   \<and> (\<forall>s. restOperationStateToThriftOperationState (UnrecognizedState s) = UKNOWN_STATE)"
  by simp

text \<open>
  C6. The type mapping is one-to-one on array, binary, boolean, char, date, decimal,
  double, float, int, map, null, string, struct, timestamp and user-defined types, sends
  byte to tinyint, long to int, short to smallint and interval to interval-day-time, and
  sends every unrecognized name to the null type. It is total.
\<close>

theorem restTypeNameToThriftTypeId_table:
  "restTypeNameToThriftTypeId Array = ARRAY_TYPE
   \<and> restTypeNameToThriftTypeId Binary = BINARY_TYPE
   \<and> restTypeNameToThriftTypeId Boolean = BOOLEAN_TYPE
   \<and> restTypeNameToThriftTypeId Char' = CHAR_TYPE
   \<and> restTypeNameToThriftTypeId Date = DATE_TYPE
   \<and> restTypeNameToThriftTypeId Decimal = DECIMAL_TYPE
   \<and> restTypeNameToThriftTypeId Double = DOUBLE_TYPE
   \<and> restTypeNameToThriftTypeId Float = FLOAT_TYPE
   \<and> restTypeNameToThriftTypeId Int' = INT_TYPE
   \<and> restTypeNameToThriftTypeId Map = MAP_TYPE
   \<and> restTypeNameToThriftTypeId Null = NULL_TYPE
   \<and> restTypeNameToThriftTypeId String = STRING_TYPE
   \<and> restTypeNameToThriftTypeId Struct = STRUCT_TYPE
   \<and> restTypeNameToThriftTypeId Timestamp = TIMESTAMP_TYPE
   \<and> restTypeNameToThriftTypeId UserDefinedType = USER_DEFINED_TYPE
   \<and> restTypeNameToThriftTypeId Byte = TINYINT_TYPE
   \<and> restTypeNameToThriftTypeId Long = INT_TYPE
   \<and> restTypeNameToThriftTypeId Short = SMALLINT_TYPE
   \<and> restTypeNameToThriftTypeId Interval = INTERVAL_DAY_TIME_TYPE
   \<and> (\<forall>s. restTypeNameToThriftTypeId (UnrecognizedTypeName s) = NULL_TYPE)"
  by simp

section \<open>Columnar conversion\<close>

text \<open>
  C4. For a schema of \<open>n\<close> columns and a chunk whose rows all have \<open>n\<close> cells, the
  conversion succeeds with exactly \<open>n\<close> string-valued columns, and column \<open>j\<close> holds the
  \<open>j\<close>-th cells of the rows, in row order. When the tracked statement has no manifest
  schema, \<open>fetchResults\<close> answers with the conversion of the chunk under the schema of
  zero columns.
\<close>

theorem columnar_conversion:
  "((\<forall>r \<in> set (chunk_rows res). length r = length (ResultSchema.columns sch)) \<longrightarrow>
      (\<exists>rowset. restJsonResultToThriftColumnar sch res = Inr rowset
         \<and> length (TRowSet.columns rowset) = length (ResultSchema.columns sch)
         \<and> columnCount rowset = length (ResultSchema.columns sch)
         \<and> (\<forall>j < length (ResultSchema.columns sch).
               TRowSet.columns rowset ! j = string_column (map (\<lambda>r. r ! j) (chunk_rows res)))))
   \<and> (currentStatement d = Some cs
        \<and> (manifest cs = None \<or> (\<exists>m. manifest cs = Some m \<and> ResultManifest.schema m = None))
        \<and> next_chunk cl cs d = (Inr (Some ch), d1) \<longrightarrow>
      ResultSchema.columns default_schema = []
      \<and> fst (fetchResults cl d) =
          (case restJsonResultToThriftColumnar default_schema ch of
             Inl e \<Rightarrow> Inl e
           | Inr rs \<Rightarrow>
               Inr \<lparr>TFetchResultsResp.status = status_of SUCCESS_STATUS,
                     hasMoreRows = Some (next_chunk_index ch \<noteq> None),
                     results = Some rs\<rparr>))"
proof (intro conjI impI)
  assume eq: "\<forall>r \<in> set (chunk_rows res). length r = length (ResultSchema.columns sch)"
  then have le: "\<forall>r \<in> set (chunk_rows res). length r \<le> length (ResultSchema.columns sch)"
    by simp
  have f: "filter (\<lambda>r. j < length r) (chunk_rows res) = chunk_rows res"
    if "j < length (ResultSchema.columns sch)" for j
    using eq that by (simp add: filter_id_conv)
  from columnar_ok [OF le] f
  show "\<exists>rowset. restJsonResultToThriftColumnar sch res = Inr rowset
         \<and> length (TRowSet.columns rowset) = length (ResultSchema.columns sch)
         \<and> columnCount rowset = length (ResultSchema.columns sch)
         \<and> (\<forall>j < length (ResultSchema.columns sch).
               TRowSet.columns rowset ! j = string_column (map (\<lambda>r. r ! j) (chunk_rows res)))"
    by (auto simp: string_column_def)
next
  assume "currentStatement d = Some cs
        \<and> (manifest cs = None \<or> (\<exists>m. manifest cs = Some m \<and> ResultManifest.schema m = None))
        \<and> next_chunk cl cs d = (Inr (Some ch), d1)"
  then show "fst (fetchResults cl d) =
          (case restJsonResultToThriftColumnar default_schema ch of
             Inl e \<Rightarrow> Inl e
           | Inr rs \<Rightarrow>
               Inr \<lparr>TFetchResultsResp.status = status_of SUCCESS_STATUS,
                     hasMoreRows = Some (next_chunk_index ch \<noteq> None),
                     results = Some rs\<rparr>)"
    by (simp add: fetchResults_converts schema_or_default_missing)
qed (simp add: default_schema_def)

text \<open>An instance: two rows of two cells under the two-column schema, and a fetch without a manifest.\<close>

theorem columnar_conversion_witness:
  "map length (chunk_rows example_chunk) = [2, 2]
   \<and> length (ResultSchema.columns example_schema) = 2
   \<and> restJsonResultToThriftColumnar example_schema example_chunk =
       Inr \<lparr>startRowOffset = 0, rows = [],
            TRowSet.columns = [string_column [''1'', ''2''], string_column [''a'', ''b'']],
            columnCount = 2\<rparr>
   \<and> fst (fetchResults echo_client
             (tracking (example_statement Succeeded None
                (Some \<lparr>chunk_index = Some 0, next_chunk_index = None, data_array = Some []\<rparr>)))) =
       Inr \<lparr>TFetchResultsResp.status = status_of SUCCESS_STATUS, hasMoreRows = Some False,
            results = Some \<lparr>startRowOffset = 0, rows = [], TRowSet.columns = [], columnCount = 0\<rparr>\<rparr>"
proof -
  let ?ch = "\<lparr>chunk_index = Some 0, next_chunk_index = None, data_array = Some []\<rparr>"
  let ?cs = "example_statement Succeeded None (Some ?ch)"
  have h: "\<forall>r \<in> set (chunk_rows example_chunk). length r = length (ResultSchema.columns example_schema)"
    by (simp add: chunk_rows_def example_chunk_def example_schema_def)
  have g: "currentStatement (tracking ?cs) = Some ?cs
        \<and> (manifest ?cs = None \<or> (\<exists>m. manifest ?cs = Some m \<and> ResultManifest.schema m = None))
        \<and> next_chunk echo_client ?cs (tracking ?cs) = (Inr (Some ?ch), tracking ?cs)"
    by (simp add: tracking_def newRestDriver_def example_statement_def next_chunk_def)
  from columnar_conversion [of example_chunk example_schema "tracking ?cs" ?cs echo_client ?ch "tracking ?cs"] h g
  obtain rowset where
    r: "restJsonResultToThriftColumnar example_schema example_chunk = Inr rowset"
    and l: "length (TRowSet.columns rowset) = length (ResultSchema.columns example_schema)"
    and c: "columnCount rowset = length (ResultSchema.columns example_schema)"
    and n: "\<forall>j < length (ResultSchema.columns example_schema).
               TRowSet.columns rowset ! j = string_column (map (\<lambda>r. r ! j) (chunk_rows example_chunk))"
    and f: "fst (fetchResults echo_client (tracking ?cs)) =
          (case restJsonResultToThriftColumnar default_schema ?ch of
             Inl e \<Rightarrow> Inl e
           | Inr rs \<Rightarrow>
               Inr \<lparr>TFetchResultsResp.status = status_of SUCCESS_STATUS,
                     hasMoreRows = Some (next_chunk_index ?ch \<noteq> None),
                     results = Some rs\<rparr>)"
    by blast
  have "restJsonResultToThriftColumnar default_schema ?ch =
      Inr \<lparr>startRowOffset = 0, rows = [], TRowSet.columns = [], columnCount = 0\<rparr>"
    by (simp add: restJsonResultToThriftColumnar_def default_schema_def)
  with f have f': "fst (fetchResults echo_client (tracking ?cs)) =
       Inr \<lparr>TFetchResultsResp.status = status_of SUCCESS_STATUS, hasMoreRows = Some False,
            results = Some \<lparr>startRowOffset = 0, rows = [], TRowSet.columns = [], columnCount = 0\<rparr>\<rparr>"
    by simp
  have "restJsonResultToThriftColumnar example_schema example_chunk =
       Inr \<lparr>startRowOffset = 0, rows = [],
            TRowSet.columns = [string_column [''1'', ''2''], string_column [''a'', ''b'']],
            columnCount = 2\<rparr>"
    by (simp add: restJsonResultToThriftColumnar_def example_schema_def example_chunk_def
        empty_column_def push_cell_def string_column_def)
  with f' show ?thesis
    by (simp add: chunk_rows_def example_chunk_def example_schema_def)
qed

text \<open>
  C10. The conversion throws exactly when some row has more cells than the schema has
  columns, and returns a row set exactly when every row has at most that many cells;
  \<open>fetchResults\<close> on a chunk with such a row fails with the same error.
\<close>

theorem columnar_partial:
  "(restJsonResultToThriftColumnar sch res = Inl TypeError \<longleftrightarrow>
      (\<exists>r \<in> set (chunk_rows res). length (ResultSchema.columns sch) < length r))
   \<and> ((\<exists>rowset. restJsonResultToThriftColumnar sch res = Inr rowset) \<longleftrightarrow>
      (\<forall>r \<in> set (chunk_rows res). length r \<le> length (ResultSchema.columns sch)))
   \<and> (currentStatement d = Some cs \<and> next_chunk cl cs d = (Inr (Some ch), d1)
        \<and> (\<exists>r \<in> set (chunk_rows ch).
              length (ResultSchema.columns (schema_or_default cs)) < length r) \<longrightarrow>
      fst (fetchResults cl d) = Inl TypeError)"
proof (intro conjI impI)
  show "restJsonResultToThriftColumnar sch res = Inl TypeError \<longleftrightarrow>
      (\<exists>r \<in> set (chunk_rows res). length (ResultSchema.columns sch) < length r)"
    by (simp add: columnar_Inl)
  show "(\<exists>rowset. restJsonResultToThriftColumnar sch res = Inr rowset) \<longleftrightarrow>
      (\<forall>r \<in> set (chunk_rows res). length r \<le> length (ResultSchema.columns sch))"
  proof
    assume "\<exists>rowset. restJsonResultToThriftColumnar sch res = Inr rowset"
    then have "restJsonResultToThriftColumnar sch res \<noteq> Inl TypeError" by auto
    then show "\<forall>r \<in> set (chunk_rows res). length r \<le> length (ResultSchema.columns sch)"
      by (simp add: columnar_Inl not_less)
  next
    assume "\<forall>r \<in> set (chunk_rows res). length r \<le> length (ResultSchema.columns sch)"
    from columnar_ok [OF this] show "\<exists>rowset. restJsonResultToThriftColumnar sch res = Inr rowset"
      by blast
  qed
next
  assume a: "currentStatement d = Some cs \<and> next_chunk cl cs d = (Inr (Some ch), d1)
        \<and> (\<exists>r \<in> set (chunk_rows ch).
              length (ResultSchema.columns (schema_or_default cs)) < length r)"
  then have "restJsonResultToThriftColumnar (schema_or_default cs) ch = Inl TypeError"
    by (simp add: columnar_Inl)
  with a show "fst (fetchResults cl d) = Inl TypeError"
    by (simp add: fetchResults_converts)
qed

text \<open>An instance: rows of two cells under a one-column schema.\<close>

theorem columnar_partial_witness:
  "map length (chunk_rows example_chunk) = [2, 2]
   \<and> length (ResultSchema.columns one_column_schema) = 1
   \<and> length (ResultSchema.columns example_schema) = 2
   \<and> restJsonResultToThriftColumnar one_column_schema example_chunk = Inl TypeError
   \<and> (\<exists>rowset. restJsonResultToThriftColumnar example_schema example_chunk = Inr rowset)
   \<and> fst (fetchResults echo_client
             (tracking (example_statement Succeeded
                (Some \<lparr>ResultManifest.schema = Some one_column_schema\<rparr>) (Some example_chunk)))) =
       Inl TypeError"
proof -
  let ?cs = "example_statement Succeeded
                (Some \<lparr>ResultManifest.schema = Some one_column_schema\<rparr>) (Some example_chunk)"
  have h: "\<exists>r \<in> set (chunk_rows example_chunk). length (ResultSchema.columns one_column_schema) < length r"
    by (simp add: chunk_rows_def example_chunk_def one_column_schema_def)
  have k: "\<forall>r \<in> set (chunk_rows example_chunk). length r \<le> length (ResultSchema.columns example_schema)"
    by (simp add: chunk_rows_def example_chunk_def example_schema_def)
  have g: "currentStatement (tracking ?cs) = Some ?cs
      \<and> next_chunk echo_client ?cs (tracking ?cs) = (Inr (Some example_chunk), tracking ?cs)
      \<and> (\<exists>r \<in> set (chunk_rows example_chunk).
              length (ResultSchema.columns (schema_or_default ?cs)) < length r)"
    using h by (simp add: tracking_def newRestDriver_def example_statement_def next_chunk_def
        schema_or_default_def)
  from columnar_partial [of one_column_schema example_chunk "tracking ?cs" ?cs echo_client
      example_chunk "tracking ?cs"] h g
  have a: "restJsonResultToThriftColumnar one_column_schema example_chunk = Inl TypeError"
    and b: "fst (fetchResults echo_client (tracking ?cs)) = Inl TypeError"
    by blast+
  from columnar_partial [of example_schema example_chunk] k
  have c: "\<exists>rowset. restJsonResultToThriftColumnar example_schema example_chunk = Inr rowset"
    by blast
  from a b c show ?thesis
    by (simp add: chunk_rows_def example_chunk_def example_schema_def one_column_schema_def)
qed

section \<open>Status processing and polling\<close>

lemma sublist_template_code: "sublist c (c @ s @ m)"
  unfolding sublist_def by (rule exI [of _ "[]"], rule exI [of _ "s @ m"]) simp

lemma sublist_template_message: "sublist m (c @ s @ m)"
  unfolding sublist_def by (rule exI [of _ "c @ s"], rule exI [of _ "[]"]) simp

lemma processStatementStatus_cleared:
  "state st = Canceled \<or> state st = Closed \<Longrightarrow>
     processStatementStatus st d = (Inr (), d\<lparr>currentStatement := None\<rparr>)"
  by (auto simp: processStatementStatus_def)

lemma processStatementStatus_failed:
  "state st = Failed \<Longrightarrow> error st = Some err \<Longrightarrow>
     processStatementStatus st d = (Inl (Error (error_code err @ '': '' @ message err)), d)"
  by (simp add: processStatementStatus_def)

lemma processStatementStatus_failed_raises:
  "state st = Failed \<Longrightarrow> \<exists>e. processStatementStatus st d = (Inl e, d)"
  by (simp add: processStatementStatus_def split: option.splits)

lemma processStatementStatus_other:
  "state st \<notin> {Canceled, Closed, Failed} \<Longrightarrow> processStatementStatus st d = (Inr (), d)"
  by (cases "state st") (simp_all add: processStatementStatus_def)

lemma processStatementStatus_calls:
  "calls (snd (processStatementStatus st d)) = calls d"
  by (cases "state st") (simp_all add: processStatementStatus_def split: option.splits)

lemma processStatementStatus_tracked:
  "currentStatement (snd (processStatementStatus st d)) = Some cs' \<Longrightarrow> currentStatement d = Some cs'"
  by (cases "state st") (simp_all add: processStatementStatus_def split: option.splits)

lemma executeStatement_processes:
  assumes "executeStatement_rest cl (execute_request cl rq d) (remote d) = (Inr resp, c')"
  shows "snd (executeStatement cl rq d) =
           snd (processStatementStatus (ExecuteStatementResponse.status resp)
                  (d\<lparr>remote := c',
                     calls := calls d @ [ExecuteStatementCall (execute_request cl rq d)],
                     currentStatement := Some resp\<rparr>))"
    and "fst (executeStatement cl rq d) = Inl e \<longleftrightarrow>
           fst (processStatementStatus (ExecuteStatementResponse.status resp)
                  (d\<lparr>remote := c',
                     calls := calls d @ [ExecuteStatementCall (execute_request cl rq d)],
                     currentStatement := Some resp\<rparr>)) = Inl e"
  using assms
  by (auto simp: executeStatement_def Let_def split: prod.splits sum.splits option.splits)

lemma refresh_statement_processes:
  assumes "currentStatement d = Some cs" and "manifest cs = None"
    and "getStatement_rest cl (statement_id cs) (remote d) = (Inr resp, c')"
  shows "refresh_statement cl d =
           processStatementStatus (ExecuteStatementResponse.status resp)
             (d\<lparr>remote := c',
                calls := calls d @ [GetStatementCall (statement_id cs)],
                currentStatement :=
                  Some (cs\<lparr>ExecuteStatementResponse.status := ExecuteStatementResponse.status resp,
                           manifest := manifest resp, result := result resp\<rparr>)\<rparr>)"
  using assms by (simp add: refresh_statement_def Let_def)

lemma getOperationStatus_refresh:
  "snd (getOperationStatus cl d) = snd (refresh_statement cl d)"
  "fst (getOperationStatus cl d) = Inl e \<longleftrightarrow> fst (refresh_statement cl d) = Inl e"
  by (auto simp: getOperationStatus_def split: prod.splits sum.splits option.splits)

lemma refresh_statement_calls:
  "calls (snd (refresh_statement cl d)) =
     calls d @ (case currentStatement d of
                  None \<Rightarrow> []
                | Some cs \<Rightarrow> if manifest cs = None then [GetStatementCall (statement_id cs)] else [])"
  by (auto simp: refresh_statement_def Let_def processStatementStatus_calls
      split: option.splits prod.splits sum.splits)

lemma refresh_statement_id:
  "currentStatement (snd (refresh_statement cl d)) = Some cs' \<Longrightarrow>
     \<exists>cs. currentStatement d = Some cs \<and> statement_id cs = statement_id cs'"
  by (auto simp: refresh_statement_def Let_def
      split: option.splits prod.splits sum.splits if_splits
      dest!: processStatementStatus_tracked)

lemma repeat_id:
  "currentStatement (repeat_getOperationStatus cl n d) = Some cs' \<Longrightarrow>
     \<exists>cs. currentStatement d = Some cs \<and> statement_id cs = statement_id cs'"
proof (induction n arbitrary: cs')
  case 0
  then show ?case by simp
next
  case (Suc n)
  from Suc.prems obtain cs1 where
    "currentStatement (repeat_getOperationStatus cl n d) = Some cs1"
    "statement_id cs1 = statement_id cs'"
    using refresh_statement_id [of cl "repeat_getOperationStatus cl n d" cs']
    by (auto simp: getOperationStatus_refresh)
  with Suc.IH [of cs1] show ?case by auto
qed

lemma repeat_calls:
  assumes "currentStatement d = Some cs"
    and "\<forall>k<n. needs_refresh (repeat_getOperationStatus cl k d)"
  shows "calls (repeat_getOperationStatus cl n d) =
           calls d @ replicate n (GetStatementCall (statement_id cs))"
  using assms(2)
proof (induction n)
  case 0
  then show ?case by simp
next
  case (Suc n)
  let ?d = "repeat_getOperationStatus cl n d"
  from Suc.prems have nr: "needs_refresh ?d" by simp
  then obtain cs1 where t: "currentStatement ?d = Some cs1" and m: "manifest cs1 = None"
    by (auto simp: needs_refresh_def split: option.splits)
  from repeat_id [OF t] assms(1) have i: "statement_id cs1 = statement_id cs" by auto
  from Suc.prems have "\<forall>k<n. needs_refresh (repeat_getOperationStatus cl k d)" by simp
  from Suc.IH [OF this] t m i show ?case
    by (simp add: getOperationStatus_refresh refresh_statement_calls replicate_append_same)
qed

lemma executeStatement_manifest:
  assumes "executeStatement_rest cl (execute_request cl rq d) (remote d) = (Inr resp, c')"
    and "manifest resp \<noteq> None"
  shows "\<not> needs_refresh (snd (executeStatement cl rq d))"
proof -
  let ?d1 = "d\<lparr>remote := c',
               calls := calls d @ [ExecuteStatementCall (execute_request cl rq d)],
               currentStatement := Some resp\<rparr>"
  have "currentStatement (snd (executeStatement cl rq d)) = None
      \<or> currentStatement (snd (executeStatement cl rq d)) = Some resp"
    using processStatementStatus_tracked [of "ExecuteStatementResponse.status resp" ?d1]
    by (cases "currentStatement (snd (executeStatement cl rq d))")
       (simp_all add: executeStatement_processes(1) [OF assms(1)])
  with assms(2) show ?thesis by (auto simp: needs_refresh_def)
qed

lemma getOperationStatus_calls:
  "calls (snd (getOperationStatus cl d)) =
     calls d @ (case currentStatement d of
                  None \<Rightarrow> []
                | Some cs \<Rightarrow> if manifest cs = None then [GetStatementCall (statement_id cs)] else [])"
  by (simp add: getOperationStatus_refresh(1) refresh_statement_calls)

text \<open>
  C2. The shared status rule: Canceled or Closed clears the tracked statement and raises
  nothing; Failed raises and leaves the state as it is, and when the status carries the
  remote error the raised message contains both its code and its message; any other
  state changes nothing and raises nothing. Both remote calls that return a status,
  the one of \<open>executeStatement\<close> and the one of \<open>getOperationStatus\<close>, end in the state
  this rule leaves and raise exactly when it raises.
\<close>

theorem status_processing_rule:
  fixes d :: "'c RestDriver"
  shows
  "(state st = Canceled \<or> state st = Closed \<longrightarrow>
      processStatementStatus st d = (Inr (), d\<lparr>currentStatement := None\<rparr>))
   \<and> (state st = Failed \<longrightarrow> (\<exists>e. processStatementStatus st d = (Inl e, d)))
   \<and> (\<forall>err. state st = Failed \<and> error st = Some err \<longrightarrow>
         (\<exists>m. processStatementStatus st d = (Inl (Error m), d)
              \<and> sublist (error_code err) m \<and> sublist (message err) m))
   \<and> (state st \<notin> {Canceled, Closed, Failed} \<longrightarrow> processStatementStatus st d = (Inr (), d))
   \<and> (\<forall>resp c'. executeStatement_rest cl (execute_request cl rq d) (remote d) = (Inr resp, c') \<longrightarrow>
         snd (executeStatement cl rq d) =
           snd (processStatementStatus (ExecuteStatementResponse.status resp)
                  (d\<lparr>remote := c',
                     calls := calls d @ [ExecuteStatementCall (execute_request cl rq d)],
                     currentStatement := Some resp\<rparr>))
         \<and> (\<forall>e. fst (executeStatement cl rq d) = Inl e \<longleftrightarrow>
                fst (processStatementStatus (ExecuteStatementResponse.status resp)
                       (d\<lparr>remote := c',
                          calls := calls d @ [ExecuteStatementCall (execute_request cl rq d)],
                          currentStatement := Some resp\<rparr>)) = Inl e))
   \<and> (\<forall>cs resp c'. currentStatement d = Some cs \<and> manifest cs = None
          \<and> getStatement_rest cl (statement_id cs) (remote d) = (Inr resp, c') \<longrightarrow>
         snd (getOperationStatus cl d) =
           snd (processStatementStatus (ExecuteStatementResponse.status resp)
                  (d\<lparr>remote := c',
                     calls := calls d @ [GetStatementCall (statement_id cs)],
                     currentStatement :=
                       Some (cs\<lparr>ExecuteStatementResponse.status := ExecuteStatementResponse.status resp,
                                manifest := manifest resp, result := result resp\<rparr>)\<rparr>))
         \<and> (\<forall>e. fst (getOperationStatus cl d) = Inl e \<longleftrightarrow>
                fst (processStatementStatus (ExecuteStatementResponse.status resp)
                       (d\<lparr>remote := c',
                          calls := calls d @ [GetStatementCall (statement_id cs)],
                          currentStatement :=
                            Some (cs\<lparr>ExecuteStatementResponse.status := ExecuteStatementResponse.status resp,
                                     manifest := manifest resp, result := result resp\<rparr>)\<rparr>)) = Inl e))"
proof (intro conjI allI impI)
  show "processStatementStatus st d = (Inr (), d\<lparr>currentStatement := None\<rparr>)"
    if "state st = Canceled \<or> state st = Closed"
    using that by (rule processStatementStatus_cleared)
  show "\<exists>e. processStatementStatus st d = (Inl e, d)" if "state st = Failed"
    using that by (rule processStatementStatus_failed_raises)
  show "\<exists>m. processStatementStatus st d = (Inl (Error m), d)
              \<and> sublist (error_code err) m \<and> sublist (message err) m"
    if "state st = Failed \<and> error st = Some err" for err
    using that processStatementStatus_failed [of st err d]
      sublist_template_code [of "error_code err" "'': ''" "message err"]
      sublist_template_message [of "message err" "error_code err" "'': ''"]
    by auto
  show "processStatementStatus st d = (Inr (), d)" if "state st \<notin> {Canceled, Closed, Failed}"
    using that by (rule processStatementStatus_other)
next
  fix resp c'
  assume a: "executeStatement_rest cl (execute_request cl rq d) (remote d) = (Inr resp, c')"
  show "snd (executeStatement cl rq d) =
           snd (processStatementStatus (ExecuteStatementResponse.status resp)
                  (d\<lparr>remote := c',
                     calls := calls d @ [ExecuteStatementCall (execute_request cl rq d)],
                     currentStatement := Some resp\<rparr>))"
    by (rule executeStatement_processes(1) [OF a])
  show "fst (executeStatement cl rq d) = Inl e \<longleftrightarrow>
                fst (processStatementStatus (ExecuteStatementResponse.status resp)
                       (d\<lparr>remote := c',
                          calls := calls d @ [ExecuteStatementCall (execute_request cl rq d)],
                          currentStatement := Some resp\<rparr>)) = Inl e" for e
    by (rule executeStatement_processes(2) [OF a])
next
  fix cs resp c'
  assume a: "currentStatement d = Some cs \<and> manifest cs = None
          \<and> getStatement_rest cl (statement_id cs) (remote d) = (Inr resp, c')"
  then have r: "refresh_statement cl d =
           processStatementStatus (ExecuteStatementResponse.status resp)
             (d\<lparr>remote := c',
                calls := calls d @ [GetStatementCall (statement_id cs)],
                currentStatement :=
                  Some (cs\<lparr>ExecuteStatementResponse.status := ExecuteStatementResponse.status resp,
                           manifest := manifest resp, result := result resp\<rparr>)\<rparr>)"
    by (simp add: refresh_statement_processes)
  show "snd (getOperationStatus cl d) =
           snd (processStatementStatus (ExecuteStatementResponse.status resp)
                  (d\<lparr>remote := c',
                     calls := calls d @ [GetStatementCall (statement_id cs)],
                     currentStatement :=
                       Some (cs\<lparr>ExecuteStatementResponse.status := ExecuteStatementResponse.status resp,
                                manifest := manifest resp, result := result resp\<rparr>)\<rparr>))"
    by (simp add: getOperationStatus_refresh(1) r)
  show "fst (getOperationStatus cl d) = Inl e \<longleftrightarrow>
                fst (processStatementStatus (ExecuteStatementResponse.status resp)
                       (d\<lparr>remote := c',
                          calls := calls d @ [GetStatementCall (statement_id cs)],
                          currentStatement :=
                            Some (cs\<lparr>ExecuteStatementResponse.status := ExecuteStatementResponse.status resp,
                                     manifest := manifest resp, result := result resp\<rparr>)\<rparr>)) = Inl e" for e
    by (simp add: getOperationStatus_refresh(2) r)
qed

text \<open>An instance: the failed status with code 42 and message "syntax error", a cancelled and a pending one.\<close>

theorem status_processing_rule_witness:
  "processStatementStatus failed_status (tracking (example_statement Running None None)) =
     (Inl (Error ''42: syntax error''), tracking (example_statement Running None None))
   \<and> sublist ''42'' ''42: syntax error'' \<and> sublist ''syntax error'' ''42: syntax error''
   \<and> processStatementStatus \<lparr>state = Canceled, error = None\<rparr>
        (tracking (example_statement Running None None)) = (Inr (), newRestDriver ())
   \<and> processStatementStatus \<lparr>state = Pending, error = None\<rparr>
        (tracking (example_statement Running None None)) =
        (Inr (), tracking (example_statement Running None None))
   \<and> fst (executeStatement failing_client \<lparr>TExecuteStatementReq.statement = ''SELEC 1''\<rparr>
            (newRestDriver ())) = Inl (Error ''42: syntax error'')
   \<and> currentStatement (snd (executeStatement failing_client
            \<lparr>TExecuteStatementReq.statement = ''SELEC 1''\<rparr> (newRestDriver ()))) =
        Some \<lparr>statement_id = ''stmt-1'', ExecuteStatementResponse.status = failed_status,
              manifest = None, result = None\<rparr>
   \<and> fst (getOperationStatus failing_client (tracking (example_statement Running None None))) =
        Inl (Error ''42: syntax error'')
   \<and> currentStatement (snd (getOperationStatus failing_client
            (tracking (example_statement Running None None)))) =
        Some \<lparr>statement_id = ''stmt-1'', ExecuteStatementResponse.status = failed_status,
              manifest = None, result = None\<rparr>"
proof -
  let ?d = "tracking (example_statement Running None None)"
  let ?rq = "\<lparr>TExecuteStatementReq.statement = ''SELEC 1''\<rparr>"
  let ?resp = "\<lparr>statement_id = ''stmt-1'', ExecuteStatementResponse.status = failed_status,
                   manifest = None, result = None\<rparr>"
  have f: "state failed_status = Failed
      \<and> error failed_status = Some \<lparr>error_code = ''42'', message = ''syntax error''\<rparr>"
    by (simp add: failed_status_def)
  from status_processing_rule [of failed_status ?d] f
  obtain m where p: "processStatementStatus failed_status ?d = (Inl (Error m), ?d)"
    and "sublist ''42'' m" "sublist ''syntax error'' m"
    by fastforce
  moreover have "processStatementStatus failed_status ?d = (Inl (Error ''42: syntax error''), ?d)"
    by (simp add: processStatementStatus_def failed_status_def)
  ultimately have 1: "processStatementStatus failed_status ?d = (Inl (Error ''42: syntax error''), ?d)
     \<and> sublist ''42'' ''42: syntax error'' \<and> sublist ''syntax error'' ''42: syntax error''"
    by simp
  from status_processing_rule [of "\<lparr>state = Canceled, error = None\<rparr>" ?d]
  have 2: "processStatementStatus \<lparr>state = Canceled, error = None\<rparr> ?d = (Inr (), newRestDriver ())"
    by (simp add: tracking_def newRestDriver_def)
  from status_processing_rule [of "\<lparr>state = Pending, error = None\<rparr>" ?d]
  have 3: "processStatementStatus \<lparr>state = Pending, error = None\<rparr> ?d = (Inr (), ?d)"
    by simp
  have e: "executeStatement_rest failing_client
             (execute_request failing_client ?rq (newRestDriver ())) (remote (newRestDriver ())) =
           (Inr ?resp, ())"
    by (simp add: failing_client_def stateless_client_def)
  have 4: "fst (executeStatement failing_client ?rq (newRestDriver ())) = Inl (Error ''42: syntax error'')
      \<and> currentStatement (snd (executeStatement failing_client ?rq (newRestDriver ()))) = Some ?resp"
    using status_processing_rule [of failed_status "newRestDriver ()" failing_client ?rq] e
    by (simp add: processStatementStatus_def failed_status_def)
  have g: "currentStatement ?d = Some (example_statement Running None None)
      \<and> manifest (example_statement Running None None) = None
      \<and> getStatement_rest failing_client (statement_id (example_statement Running None None))
           (remote ?d) = (Inr ?resp, ())"
    by (simp add: failing_client_def stateless_client_def tracking_def example_statement_def)
  have 5: "fst (getOperationStatus failing_client ?d) = Inl (Error ''42: syntax error'')
      \<and> currentStatement (snd (getOperationStatus failing_client ?d)) = Some ?resp"
    using status_processing_rule [of failed_status ?d failing_client ?rq] g
    by (simp add: processStatementStatus_def failed_status_def example_statement_def)
  from 1 2 3 4 5 show ?thesis by simp
qed

lemma processStatementStatus_remote:
  "remote (snd (processStatementStatus st d)) = remote d"
  by (cases "state st") (simp_all add: processStatementStatus_def split: option.splits)

lemma refresh_statement_remote:
  "remote (snd (refresh_statement cl d)) =
     (case currentStatement d of
        None \<Rightarrow> remote d
      | Some cs \<Rightarrow>
          if manifest cs = None then snd (getStatement_rest cl (statement_id cs) (remote d))
          else remote d)"
  by (auto simp: refresh_statement_def Let_def processStatementStatus_remote
      split: option.splits prod.splits sum.splits)

lemma refresh_statement_idle:
  "currentStatement d = None \<or> (\<exists>cs m. currentStatement d = Some cs \<and> manifest cs = Some m) \<Longrightarrow>
     refresh_statement cl d = (Inr (), d)"
  by (auto simp: refresh_statement_def)

lemma refresh_statement_rejected:
  "currentStatement d = Some cs \<Longrightarrow> manifest cs = None \<Longrightarrow>
   getStatement_rest cl (statement_id cs) (remote d) = (Inl e, c') \<Longrightarrow>
     refresh_statement cl d =
       (Inl e, d\<lparr>remote := c', calls := calls d @ [GetStatementCall (statement_id cs)]\<rparr>)"
  by (simp add: refresh_statement_def)

lemma getOperationStatus_rejected:
  "refresh_statement cl d = (Inl e, d1) \<Longrightarrow> getOperationStatus cl d = (Inl e, d1)"
  by (simp add: getOperationStatus_def)

lemma repeat_remote:
  assumes "currentStatement d = Some cs"
    and "\<forall>k<n. needs_refresh (repeat_getOperationStatus cl k d)"
  shows "remote (repeat_getOperationStatus cl n d) =
           ((\<lambda>c. snd (getStatement_rest cl (statement_id cs) c)) ^^ n) (remote d)"
  using assms(2)
proof (induction n)
  case 0
  then show ?case by simp
next
  case (Suc n)
  let ?d = "repeat_getOperationStatus cl n d"
  from Suc.prems have nr: "needs_refresh ?d" by simp
  then obtain cs1 where t: "currentStatement ?d = Some cs1" and m: "manifest cs1 = None"
    by (auto simp: needs_refresh_def split: option.splits)
  from repeat_id [OF t] assms(1) have i: "statement_id cs1 = statement_id cs" by auto
  from Suc.prems have "\<forall>k<n. needs_refresh (repeat_getOperationStatus cl k d)" by simp
  from Suc.IH [OF this] t m i show ?case
    by (simp add: getOperationStatus_refresh refresh_statement_remote)
qed

text \<open>
  C3. When a statement is tracked without a manifest, \<open>getOperationStatus\<close> applies the
  client's get-statement method once, to the tracked id and the remote side's current
  state: the remote side is left in the state that one request leaves, a rejection of the
  request is the operation's own rejection, and an answer is what the tracked statement
  is refreshed from. When nothing is tracked, or the tracked statement has a manifest,
  the operation leaves the adapter and the remote side exactly as they were; so it does
  right after an execute response that carried a manifest. As long as the statement
  stays tracked without a manifest, \<open>n\<close> calls in a row put \<open>n\<close> get-statement requests
  to the remote side, one after the other.
\<close>

theorem getOperationStatus_remote_calls:
  fixes d :: "'c RestDriver"
  shows
  "(\<forall>cs. currentStatement d = Some cs \<and> manifest cs = None \<longrightarrow>
      remote (snd (getOperationStatus cl d)) =
        snd (getStatement_rest cl (statement_id cs) (remote d))
      \<and> calls (snd (getOperationStatus cl d)) = calls d @ [GetStatementCall (statement_id cs)])
   \<and> (\<forall>cs e c'. currentStatement d = Some cs \<and> manifest cs = None
          \<and> getStatement_rest cl (statement_id cs) (remote d) = (Inl e, c') \<longrightarrow>
        getOperationStatus cl d =
          (Inl e, d\<lparr>remote := c', calls := calls d @ [GetStatementCall (statement_id cs)]\<rparr>))
   \<and> (\<forall>cs resp c'. currentStatement d = Some cs \<and> manifest cs = None
          \<and> getStatement_rest cl (statement_id cs) (remote d) = (Inr resp, c') \<longrightarrow>
        snd (getOperationStatus cl d) =
          snd (processStatementStatus (ExecuteStatementResponse.status resp)
                 (d\<lparr>remote := c',
                    calls := calls d @ [GetStatementCall (statement_id cs)],
                    currentStatement :=
                      Some (cs\<lparr>ExecuteStatementResponse.status := ExecuteStatementResponse.status resp,
                               manifest := manifest resp, result := result resp\<rparr>)\<rparr>)))
   \<and> (currentStatement d = None \<or> (\<exists>cs m. currentStatement d = Some cs \<and> manifest cs = Some m) \<longrightarrow>
      snd (getOperationStatus cl d) = d)
   \<and> (\<forall>resp c'. executeStatement_rest cl (execute_request cl rq d) (remote d) = (Inr resp, c')
          \<and> manifest resp \<noteq> None \<longrightarrow>
        snd (getOperationStatus cl (snd (executeStatement cl rq d))) =
          snd (executeStatement cl rq d))
   \<and> (\<forall>cs n. currentStatement d = Some cs
          \<and> (\<forall>k<n. needs_refresh (repeat_getOperationStatus cl k d)) \<longrightarrow>
        remote (repeat_getOperationStatus cl n d) =
          ((\<lambda>c. snd (getStatement_rest cl (statement_id cs) c)) ^^ n) (remote d)
        \<and> calls (repeat_getOperationStatus cl n d) =
          calls d @ replicate n (GetStatementCall (statement_id cs)))"
proof (intro conjI allI impI)
  show "remote (snd (getOperationStatus cl d)) =
        snd (getStatement_rest cl (statement_id cs) (remote d))"
    if "currentStatement d = Some cs \<and> manifest cs = None" for cs
    using that by (simp add: getOperationStatus_refresh(1) refresh_statement_remote)
  show "calls (snd (getOperationStatus cl d)) = calls d @ [GetStatementCall (statement_id cs)]"
    if "currentStatement d = Some cs \<and> manifest cs = None" for cs
    using that by (simp add: getOperationStatus_calls)
  show "getOperationStatus cl d =
          (Inl e, d\<lparr>remote := c', calls := calls d @ [GetStatementCall (statement_id cs)]\<rparr>)"
    if "currentStatement d = Some cs \<and> manifest cs = None
          \<and> getStatement_rest cl (statement_id cs) (remote d) = (Inl e, c')" for cs e c'
    using that by (simp add: getOperationStatus_rejected refresh_statement_rejected)
  show "snd (getOperationStatus cl d) =
          snd (processStatementStatus (ExecuteStatementResponse.status resp)
                 (d\<lparr>remote := c',
                    calls := calls d @ [GetStatementCall (statement_id cs)],
                    currentStatement :=
                      Some (cs\<lparr>ExecuteStatementResponse.status := ExecuteStatementResponse.status resp,
                               manifest := manifest resp, result := result resp\<rparr>)\<rparr>))"
    if "currentStatement d = Some cs \<and> manifest cs = None
          \<and> getStatement_rest cl (statement_id cs) (remote d) = (Inr resp, c')" for cs resp c'
    using that by (simp add: getOperationStatus_refresh(1) refresh_statement_processes)
  show "snd (getOperationStatus cl d) = d"
    if "currentStatement d = None \<or> (\<exists>cs m. currentStatement d = Some cs \<and> manifest cs = Some m)"
    using refresh_statement_idle [OF that, of cl] by (simp add: getOperationStatus_refresh(1))
  show "snd (getOperationStatus cl (snd (executeStatement cl rq d))) =
          snd (executeStatement cl rq d)"
    if "executeStatement_rest cl (execute_request cl rq d) (remote d) = (Inr resp, c')
          \<and> manifest resp \<noteq> None" for resp c'
  proof -
    let ?d = "snd (executeStatement cl rq d)"
    from executeStatement_manifest [of cl rq d resp c'] that
    have "currentStatement ?d = None \<or> (\<exists>cs m. currentStatement ?d = Some cs \<and> manifest cs = Some m)"
      by (auto simp: needs_refresh_def split: option.splits)
    from refresh_statement_idle [OF this, of cl] show ?thesis
      by (simp add: getOperationStatus_refresh(1))
  qed
  show "remote (repeat_getOperationStatus cl n d) =
          ((\<lambda>c. snd (getStatement_rest cl (statement_id cs) c)) ^^ n) (remote d)"
    if "currentStatement d = Some cs
          \<and> (\<forall>k<n. needs_refresh (repeat_getOperationStatus cl k d))" for cs n
    using that by (simp add: repeat_remote)
  show "calls (repeat_getOperationStatus cl n d) =
          calls d @ replicate n (GetStatementCall (statement_id cs))"
    if "currentStatement d = Some cs
          \<and> (\<forall>k<n. needs_refresh (repeat_getOperationStatus cl k d))" for cs n
    using that by (simp add: repeat_calls)
qed

text \<open>
  An instance, on the remote side that counts the get-statement requests it serves: one
  poll of a pending statement, the cases without a request, and three polls in a row.
\<close>

theorem getOperationStatus_remote_calls_witness:
  "remote (snd (getOperationStatus counting_client polled)) = 1
   \<and> calls (snd (getOperationStatus counting_client polled)) = [GetStatementCall ''stmt-1'']
   \<and> snd (getOperationStatus counting_client (newRestDriver 0)) = newRestDriver 0
   \<and> snd (getOperationStatus counting_client
        ((newRestDriver 0)\<lparr>currentStatement :=
           Some (example_statement Succeeded (Some \<lparr>ResultManifest.schema = None\<rparr>) None)\<rparr>)) =
       (newRestDriver 0)\<lparr>currentStatement :=
           Some (example_statement Succeeded (Some \<lparr>ResultManifest.schema = None\<rparr>) None)\<rparr>
   \<and> snd (getOperationStatus echo_client
        (snd (executeStatement echo_client \<lparr>TExecuteStatementReq.statement = ''SELECT 1''\<rparr>
                (newRestDriver ())))) =
       snd (executeStatement echo_client \<lparr>TExecuteStatementReq.statement = ''SELECT 1''\<rparr>
                (newRestDriver ()))
   \<and> remote (repeat_getOperationStatus counting_client 3 polled) = 3
   \<and> calls (repeat_getOperationStatus counting_client 3 polled) =
       [GetStatementCall ''stmt-1'', GetStatementCall ''stmt-1'', GetStatementCall ''stmt-1'']"
proof -
  let ?p = "example_statement Pending None None"
  let ?s = "(newRestDriver (0::nat))\<lparr>currentStatement :=
           Some (example_statement Succeeded (Some \<lparr>ResultManifest.schema = None\<rparr>) None)\<rparr>"
  let ?rq = "\<lparr>TExecuteStatementReq.statement = ''SELECT 1''\<rparr>"
  let ?f = "\<lambda>c. snd (getStatement_rest counting_client (statement_id ?p) c)"
  have t: "currentStatement polled = Some ?p \<and> manifest ?p = None"
    by (simp add: polled_def example_statement_def)
  have sid: "statement_id ?p = ''stmt-1''" and c0: "calls polled = []" and r0: "remote polled = 0"
    by (simp_all add: polled_def newRestDriver_def example_statement_def)
  have f: "snd (getStatement_rest counting_client x c) = Suc c" for x c
    by (simp add: counting_client_def)
  have step: "snd (getOperationStatus counting_client (polled\<lparr>remote := k, calls := cs\<rparr>)) =
      polled\<lparr>remote := Suc k, calls := cs @ [GetStatementCall ''stmt-1'']\<rparr>" for k cs
    by (simp add: getOperationStatus_def refresh_statement_def counting_client_def
        polled_def example_statement_def newRestDriver_def processStatementStatus_def)
  have p0: "polled = polled\<lparr>remote := 0, calls := []\<rparr>"
    by (simp add: polled_def newRestDriver_def)
  have r1: "repeat_getOperationStatus counting_client (Suc 0) polled =
      polled\<lparr>remote := Suc 0, calls := [] @ [GetStatementCall ''stmt-1'']\<rparr>"
    using step [where k = 0 and cs = "[]"] p0 by simp
  have r2: "repeat_getOperationStatus counting_client (Suc (Suc 0)) polled =
      polled\<lparr>remote := Suc (Suc 0),
             calls := ([] @ [GetStatementCall ''stmt-1'']) @ [GetStatementCall ''stmt-1'']\<rparr>"
    using step r1 by simp
  have nr: "needs_refresh (polled\<lparr>remote := k, calls := cs\<rparr>)" for k cs
    by (simp add: needs_refresh_def polled_def example_statement_def)
  have nr0: "needs_refresh polled"
    by (simp add: needs_refresh_def polled_def example_statement_def)
  have all: "\<forall>k<3. needs_refresh (repeat_getOperationStatus counting_client k polled)"
  proof (intro allI impI)
    fix k :: nat assume "k < 3"
    then have "k = 0 \<or> k = Suc 0 \<or> k = Suc (Suc 0)" by arith
    then show "needs_refresh (repeat_getOperationStatus counting_client k polled)"
      using nr0 nr r1 r2 by (elim disjE) simp_all
  qed
  have e: "executeStatement_rest echo_client
             (execute_request echo_client ?rq (newRestDriver ())) (remote (newRestDriver ())) =
           (echo_execute (execute_request echo_client ?rq (newRestDriver ())), ())"
    by (simp add: echo_client_def stateless_client_def)
  from getOperationStatus_remote_calls [of polled counting_client] t
  have "remote (snd (getOperationStatus counting_client polled)) = ?f (remote polled)
      \<and> calls (snd (getOperationStatus counting_client polled)) =
          calls polled @ [GetStatementCall (statement_id ?p)]"
    by blast
  then have 1: "remote (snd (getOperationStatus counting_client polled)) = 1
      \<and> calls (snd (getOperationStatus counting_client polled)) = [GetStatementCall ''stmt-1'']"
    by (simp add: f sid c0 r0)
  have 2: "snd (getOperationStatus counting_client (newRestDriver 0)) = newRestDriver 0"
    using getOperationStatus_remote_calls [of "newRestDriver 0" counting_client]
    by (simp add: newRestDriver_def)
  have 3: "snd (getOperationStatus counting_client ?s) = ?s"
    using getOperationStatus_remote_calls [of ?s counting_client]
    by (simp add: example_statement_def)
  have 4: "snd (getOperationStatus echo_client (snd (executeStatement echo_client ?rq (newRestDriver ())))) =
       snd (executeStatement echo_client ?rq (newRestDriver ()))"
    using getOperationStatus_remote_calls [of "newRestDriver ()" echo_client ?rq] e
    by (simp add: echo_execute_def)
  have rep: "replicate 3 (GetStatementCall ''stmt-1'') =
      [GetStatementCall ''stmt-1'', GetStatementCall ''stmt-1'', GetStatementCall ''stmt-1'']"
    by (simp add: numeral_3_eq_3)
  have pw: "((\<lambda>c. snd (getStatement_rest counting_client x c)) ^^ 3) 0 = 3" for x
    by (simp add: f numeral_3_eq_3)
  from getOperationStatus_remote_calls [of polled counting_client ?rq] t all
  have "remote (repeat_getOperationStatus counting_client 3 polled) = (?f ^^ 3) (remote polled)
      \<and> calls (repeat_getOperationStatus counting_client 3 polled) =
         calls polled @ replicate 3 (GetStatementCall (statement_id ?p))"
    by blast
  then have 5: "remote (repeat_getOperationStatus counting_client 3 polled) = 3
      \<and> calls (repeat_getOperationStatus counting_client 3 polled) =
       [GetStatementCall ''stmt-1'', GetStatementCall ''stmt-1'', GetStatementCall ''stmt-1'']"
    by (simp only: rep c0 sid r0 pw append_Nil)
  from 1 2 3 4 5 show ?thesis by simp
qed

section \<open>Result metadata\<close>

lemma manifest_columns_schema:
  "manifest cs = Some m \<Longrightarrow> ResultManifest.schema m = Some sch \<Longrightarrow>
     manifest_columns cs = ResultSchema.columns sch"
  by (simp add: manifest_columns_def)

text \<open>
  The sum of the code is exact as long as it stays within \<open>2 ^ 53\<close>; at the position
  \<open>2 ^ 53\<close> itself it is rounded back to \<open>2 ^ 53\<close>.
\<close>

lemma round_to_double_exact: "\<bar>n\<bar> \<le> 2 ^ 53 \<Longrightarrow> round_to_double n = n"
  by (simp add: round_to_double_def)

lemma floorlog_54: "floorlog 2 9007199254740993 = 54"
proof -
  have "floorlog 2 9007199254740993 \<le> 54"
    by (simp add: floorlog_le_iff)
  moreover have "54 \<le> floorlog 2 9007199254740993"
    by (rule floorlog_geI) simp_all
  ultimately show ?thesis by simp
qed

lemma round_to_double_tie: "round_to_double (2 ^ 53 + 1) = 2 ^ 53"
  by (simp add: round_to_double_def floorlog_54 Let_def)

text \<open>
  C7. For a tracked statement whose manifest has a schema, \<open>getResultSetMetadata\<close>
  succeeds, and its \<open>i\<close>-th descriptor names the \<open>i\<close>-th column of the manifest and
  reports that column's zero-based position \<open>p\<close> plus one, for every position
  \<open>0 \<le> p < 2 ^ 53\<close> (the integers on which the addition of the code is exact; a
  column position is an index into the manifest's column list).
\<close>

theorem getResultSetMetadata_position:
  assumes "currentStatement d = Some cs" and "manifest cs = Some m"
    and "ResultManifest.schema m = Some sch" and "i < length (ResultSchema.columns sch)"
    and "0 \<le> ColumnInfo.position (ResultSchema.columns sch ! i)"
    and "ColumnInfo.position (ResultSchema.columns sch ! i) < 2 ^ 53"
  shows "\<exists>r ts. getResultSetMetadata d = (Inr r, d)
     \<and> TGetResultSetMetadataResp.status r = status_of SUCCESS_STATUS
     \<and> TGetResultSetMetadataResp.schema r = Some ts
     \<and> length (TTableSchema.columns ts) = length (ResultSchema.columns sch)
     \<and> columnName (TTableSchema.columns ts ! i) = name (ResultSchema.columns sch ! i)
     \<and> TColumnDesc.position (TTableSchema.columns ts ! i) =
         ColumnInfo.position (ResultSchema.columns sch ! i) + 1"
proof -
  from assms(5,6) have "\<bar>ColumnInfo.position (ResultSchema.columns sch ! i) + 1\<bar> \<le> 2 ^ 53"
    by simp
  then have "round_to_double (ColumnInfo.position (ResultSchema.columns sch ! i) + 1) =
      ColumnInfo.position (ResultSchema.columns sch ! i) + 1"
    by (rule round_to_double_exact)
  with assms(1-4) show ?thesis
    by (simp add: getResultSetMetadata_def manifest_columns_schema column_desc_def)
qed

text \<open>An instance: the two-column schema, positions 0 and 1 reported as 1 and 2.\<close>

theorem getResultSetMetadata_position_witness:
  "fst (getResultSetMetadata
          (tracking (example_statement Succeeded
             (Some \<lparr>ResultManifest.schema = Some example_schema\<rparr>) None))) =
     Inr \<lparr>TGetResultSetMetadataResp.status = status_of SUCCESS_STATUS,
          resultFormat = Some COLUMN_BASED_SET,
          TGetResultSetMetadataResp.schema =
            Some \<lparr>TTableSchema.columns =
              [\<lparr>columnName = ''id'', TColumnDesc.position = 1, typeDesc = [primitiveEntry INT_TYPE]\<rparr>,
               \<lparr>columnName = ''label'', TColumnDesc.position = 2,
                 typeDesc = [primitiveEntry STRING_TYPE]\<rparr>]\<rparr>\<rparr>
   \<and> ColumnInfo.position (ResultSchema.columns example_schema ! 1) = 1"
proof -
  let ?cs = "example_statement Succeeded (Some \<lparr>ResultManifest.schema = Some example_schema\<rparr>) None"
  have a: "currentStatement (tracking ?cs) = Some ?cs"
    and b: "manifest ?cs = Some \<lparr>ResultManifest.schema = Some example_schema\<rparr>"
    and c: "ResultManifest.schema \<lparr>ResultManifest.schema = Some example_schema\<rparr> = Some example_schema"
    and e: "1 < length (ResultSchema.columns example_schema)"
    and lo: "0 \<le> ColumnInfo.position (ResultSchema.columns example_schema ! 1)"
    and hi: "ColumnInfo.position (ResultSchema.columns example_schema ! 1) < 2 ^ 53"
    by (simp_all add: tracking_def example_statement_def example_schema_def)
  from getResultSetMetadata_position [OF a b c e lo hi]
  obtain r ts where "getResultSetMetadata (tracking ?cs) = (Inr r, tracking ?cs)"
    and "TGetResultSetMetadataResp.schema r = Some ts"
    and "TColumnDesc.position (TTableSchema.columns ts ! 1) =
         ColumnInfo.position (ResultSchema.columns example_schema ! 1) + 1"
    by blast
  then show ?thesis
    by (simp add: getResultSetMetadata_def tracking_def example_statement_def example_schema_def
        manifest_columns_def column_desc_def newRestDriver_def round_to_double_def)
qed

section \<open>Fetching results\<close>

lemma fetchResults_untracked:
  "currentStatement d = None \<Longrightarrow> fetchResults cl d = (Inr invalid_handle_resp, d)"
  by (simp add: fetchResults_def invalid_handle_resp_def)

lemma fetchResults_no_chunk:
  "currentStatement d = Some cs \<Longrightarrow> next_chunk cl cs d = (Inr None, d1) \<Longrightarrow>
     fetchResults cl d = (Inr no_more_data_resp, d1\<lparr>currentResultChunk := None\<rparr>)"
  by (simp add: fetchResults_def no_more_data_resp_def)

lemma next_chunk_first:
  "currentResultChunk d = None \<Longrightarrow> next_chunk cl cs d = (Inr (result cs), d)"
  by (simp add: next_chunk_def)

lemma next_chunk_remote:
  "currentResultChunk d = Some ch \<Longrightarrow>
   getStatementResultChunkN_rest cl (statement_id cs) (next_chunk_index ch) (remote d) = (r, c') \<Longrightarrow>
     next_chunk cl cs d =
       (r, d\<lparr>remote := c',
              calls := calls d @
                [GetStatementResultChunkNCall (statement_id cs) (next_chunk_index ch)]\<rparr>)"
  by (simp add: next_chunk_def)

lemma fetchResults_cases:
  assumes "fst (fetchResults cl d) = Inr r"
  shows "(currentStatement d = None \<and> r = invalid_handle_resp)
    \<or> (\<exists>cs d1. currentStatement d = Some cs \<and> next_chunk cl cs d = (Inr None, d1)
          \<and> r = no_more_data_resp)
    \<or> (\<exists>cs ch d1 rs. currentStatement d = Some cs \<and> next_chunk cl cs d = (Inr (Some ch), d1)
          \<and> TFetchResultsResp.status r = status_of SUCCESS_STATUS \<and> results r = Some rs)"
proof (cases "currentStatement d")
  case None
  with assms show ?thesis by (simp add: fetchResults_untracked)
next
  case (Some cs)
  obtain o1 d1 where n: "next_chunk cl cs d = (o1, d1)" by (cases "next_chunk cl cs d")
  show ?thesis
  proof (cases o1)
    case (Inl e)
    with assms Some n show ?thesis by (simp add: fetchResults_def)
  next
    case (Inr chunk)
    show ?thesis
    proof (cases chunk)
      case None
      with assms Some n Inr show ?thesis by (simp add: fetchResults_no_chunk)
    next
      case (Some ch)
      with assms \<open>currentStatement d = Some cs\<close> n Inr show ?thesis
        by (auto simp: fetchResults_converts split: sum.splits)
    qed
  qed
qed

text \<open>
  C8. \<open>fetchResults\<close> answers with the "Invalid handle" error status when no statement is
  tracked, and with the "No more data" error status when the chunk it selects (the
  statement's own result on the first fetch, the remote side's answer afterwards) is
  absent; neither case throws. Conversely every response it returns is one of these two
  or a success response that carries a row set.
\<close>

theorem fetchResults_local_failures:
  fixes d :: "'c RestDriver"
  shows
  "(currentStatement d = None \<longrightarrow> fetchResults cl d = (Inr invalid_handle_resp, d))
   \<and> (\<forall>cs. currentStatement d = Some cs \<and> currentResultChunk d = None \<and> result cs = None \<longrightarrow>
         fetchResults cl d = (Inr no_more_data_resp, d))
   \<and> (\<forall>cs ch c'. currentStatement d = Some cs \<and> currentResultChunk d = Some ch
          \<and> getStatementResultChunkN_rest cl (statement_id cs) (next_chunk_index ch) (remote d) =
              (Inr None, c') \<longrightarrow>
         fst (fetchResults cl d) = Inr no_more_data_resp
         \<and> currentResultChunk (snd (fetchResults cl d)) = None)
   \<and> (\<forall>r. fst (fetchResults cl d) = Inr r \<longrightarrow>
         (currentStatement d = None \<and> r = invalid_handle_resp)
         \<or> (\<exists>cs d1. currentStatement d = Some cs \<and> next_chunk cl cs d = (Inr None, d1)
               \<and> r = no_more_data_resp)
         \<or> (\<exists>cs ch d1 rs. currentStatement d = Some cs
               \<and> next_chunk cl cs d = (Inr (Some ch), d1)
               \<and> TFetchResultsResp.status r = status_of SUCCESS_STATUS \<and> results r = Some rs))
   \<and> statusCode (TFetchResultsResp.status invalid_handle_resp) = ERROR_STATUS
   \<and> TStatus.errorMessage (TFetchResultsResp.status invalid_handle_resp) = Some ''Invalid handle''
   \<and> statusCode (TFetchResultsResp.status no_more_data_resp) = ERROR_STATUS
   \<and> TStatus.errorMessage (TFetchResultsResp.status no_more_data_resp) = Some ''No more data''"
proof (intro conjI allI impI)
  show "fetchResults cl d = (Inr invalid_handle_resp, d)" if "currentStatement d = None"
    using that by (rule fetchResults_untracked)
  show "fetchResults cl d = (Inr no_more_data_resp, d)"
    if "currentStatement d = Some cs \<and> currentResultChunk d = None \<and> result cs = None" for cs
  proof -
    from that have "next_chunk cl cs d = (Inr None, d)" by (simp add: next_chunk_first)
    with that have "fetchResults cl d = (Inr no_more_data_resp, d\<lparr>currentResultChunk := None\<rparr>)"
      by (simp add: fetchResults_no_chunk)
    moreover from that have "d\<lparr>currentResultChunk := None\<rparr> = d" by simp
    ultimately show ?thesis by simp
  qed
next
  fix cs ch c'
  assume a: "currentStatement d = Some cs \<and> currentResultChunk d = Some ch
          \<and> getStatementResultChunkN_rest cl (statement_id cs) (next_chunk_index ch) (remote d) =
              (Inr None, c')"
  then have f: "fetchResults cl d =
      (Inr no_more_data_resp,
       d\<lparr>remote := c',
          calls := calls d @ [GetStatementResultChunkNCall (statement_id cs) (next_chunk_index ch)],
          currentResultChunk := None\<rparr>)"
    using fetchResults_no_chunk [of d cs cl] next_chunk_remote [of d ch cl cs "Inr None" c']
    by simp
  show "fst (fetchResults cl d) = Inr no_more_data_resp" by (simp add: f)
  show "currentResultChunk (snd (fetchResults cl d)) = None" by (simp add: f)
next
  fix r assume "fst (fetchResults cl d) = Inr r"
  then show "(currentStatement d = None \<and> r = invalid_handle_resp)
         \<or> (\<exists>cs d1. currentStatement d = Some cs \<and> next_chunk cl cs d = (Inr None, d1)
               \<and> r = no_more_data_resp)
         \<or> (\<exists>cs ch d1 rs. currentStatement d = Some cs
               \<and> next_chunk cl cs d = (Inr (Some ch), d1)
               \<and> TFetchResultsResp.status r = status_of SUCCESS_STATUS \<and> results r = Some rs)"
    by (rule fetchResults_cases)
qed (simp_all add: invalid_handle_resp_def no_more_data_resp_def error_status_def)

text \<open>An instance: no statement, a statement without a result, a remote side without a further chunk, and a success.\<close>

theorem fetchResults_local_failures_witness:
  "fetchResults exhausted_client (newRestDriver ()) = (Inr invalid_handle_resp, newRestDriver ())
   \<and> fetchResults exhausted_client (tracking (example_statement Succeeded None None)) =
       (Inr no_more_data_resp, tracking (example_statement Succeeded None None))
   \<and> fst (fetchResults exhausted_client
        ((tracking (example_statement Succeeded None (Some example_chunk)))
           \<lparr>currentResultChunk := Some example_chunk\<rparr>)) = Inr no_more_data_resp
   \<and> TFetchResultsResp.status
        (projr (fst (fetchResults exhausted_client
           (tracking (example_statement Succeeded
              (Some \<lparr>ResultManifest.schema = Some example_schema\<rparr>) (Some example_chunk)))))) =
       status_of SUCCESS_STATUS"
proof -
  let ?n = "example_statement Succeeded None None"
  let ?c = "example_statement Succeeded None (Some example_chunk)"
  let ?d = "(tracking ?c)\<lparr>currentResultChunk := Some example_chunk\<rparr>"
  let ?s = "example_statement Succeeded
              (Some \<lparr>ResultManifest.schema = Some example_schema\<rparr>) (Some example_chunk)"
  have 1: "fetchResults exhausted_client (newRestDriver ()) = (Inr invalid_handle_resp, newRestDriver ())"
    using fetchResults_local_failures [of "newRestDriver ()" exhausted_client]
    by (simp add: newRestDriver_def)
  have "currentStatement (tracking ?n) = Some ?n \<and> currentResultChunk (tracking ?n) = None
      \<and> result ?n = None"
    by (simp add: tracking_def newRestDriver_def example_statement_def)
  with fetchResults_local_failures [of "tracking ?n" exhausted_client]
  have 2: "fetchResults exhausted_client (tracking ?n) = (Inr no_more_data_resp, tracking ?n)"
    by blast
  have "currentStatement ?d = Some ?c \<and> currentResultChunk ?d = Some example_chunk
      \<and> getStatementResultChunkN_rest exhausted_client (statement_id ?c)
           (next_chunk_index example_chunk) (remote ?d) = (Inr None, ())"
    by (simp add: tracking_def newRestDriver_def exhausted_client_def stateless_client_def)
  with fetchResults_local_failures [of ?d exhausted_client]
  have 3: "fst (fetchResults exhausted_client ?d) = Inr no_more_data_resp"
    by blast
  have ok: "fst (fetchResults exhausted_client (tracking ?s)) =
      Inr \<lparr>TFetchResultsResp.status = status_of SUCCESS_STATUS, hasMoreRows = Some True,
           results = Some \<lparr>startRowOffset = 0, rows = [],
             TRowSet.columns = [string_column [''1'', ''2''], string_column [''a'', ''b'']],
             columnCount = 2\<rparr>\<rparr>"
    by (simp add: fetchResults_def next_chunk_def tracking_def newRestDriver_def
        example_statement_def schema_or_default_def restJsonResultToThriftColumnar_def
        example_schema_def example_chunk_def empty_column_def push_cell_def string_column_def)
  with fetchResults_local_failures [of "tracking ?s" exhausted_client]
  have 4: "TFetchResultsResp.status (projr (fst (fetchResults exhausted_client (tracking ?s)))) =
       status_of SUCCESS_STATUS"
    by simp
  from 1 2 3 4 show ?thesis by simp
qed

text \<open>
  None of \<open>executeStatement\<close>, \<open>cancelOperation\<close> and \<open>closeOperation\<close> writes
  \<^verbatim>\<open>currentResultChunk\<close>: the chunk held for the previous statement stays.
\<close>

lemma operations_keep_result_chunk:
  "currentResultChunk (snd (closeOperation d)) = currentResultChunk d"
  "currentResultChunk (snd (cancelOperation cl d)) = currentResultChunk d"
  "currentResultChunk (snd (executeStatement cl rq d)) = currentResultChunk d"
proof -
  show "currentResultChunk (snd (closeOperation d)) = currentResultChunk d"
    by (simp add: closeOperation_def)
  show "currentResultChunk (snd (cancelOperation cl d)) = currentResultChunk d"
    by (simp add: cancelOperation_def Let_def split: option.splits prod.splits sum.splits)
  have p: "currentResultChunk (snd (processStatementStatus st e)) = currentResultChunk e"
    for st and e :: "'a RestDriver"
    by (cases "state st") (simp_all add: processStatementStatus_def split: option.splits)
  obtain r c' where e: "executeStatement_rest cl (execute_request cl rq d) (remote d) = (r, c')"
    by (cases "executeStatement_rest cl (execute_request cl rq d) (remote d)")
  show "currentResultChunk (snd (executeStatement cl rq d)) = currentResultChunk d"
  proof (cases r)
    case (Inl err)
    with e show ?thesis by (simp add: executeStatement_def Let_def)
  next
    case (Inr resp)
    with e show ?thesis by (simp add: executeStatement_processes(1) p)
  qed
qed

lemma echo_executeStatement:
  "snd (executeStatement echo_client \<lparr>TExecuteStatementReq.statement = txt\<rparr> d) =
     d\<lparr>currentStatement :=
          Some \<lparr>statement_id = txt,
                ExecuteStatementResponse.status = \<lparr>state = Succeeded, error = None\<rparr>,
                manifest = Some \<lparr>ResultManifest.schema = Some one_column_schema\<rparr>,
                result = Some (first_chunk_of txt)\<rparr>,
        calls := calls d @
          [ExecuteStatementCall
             \<lparr>catalog = session_catalog d, ExecuteStatementRequest.schema = session_schema d,
              disposition = Inline, format = JsonArray, on_wait_timeout = Continue,
              wait_timeout = ''5s'', warehouse_id = ''warehouse'',
              ExecuteStatementRequest.statement = txt\<rparr>]\<rparr>"
  by (cases d)
     (simp add: executeStatement_def Let_def execute_request_def echo_client_def
      stateless_client_def echo_execute_def processStatementStatus_def first_chunk_of_def
      session_catalog_def session_schema_def)

text \<open>
  C1, evaluated on the two-statement session: after \<open>A\<close> was fetched and closed and \<open>B\<close>
  executed, the adapter tracks \<open>B\<close> with its own first chunk attached, but still holds the
  chunk of \<open>A\<close>; the first \<open>fetchResults\<close> for \<open>B\<close> therefore asks the remote side for
  chunk 1 of \<open>B\<close> and returns that one, not the chunk attached to \<open>B\<close>.
\<close>

theorem stale_result_chunk:
  "currentStatement run_A_close_B =
     Some \<lparr>statement_id = ''B'',
           ExecuteStatementResponse.status = \<lparr>state = Succeeded, error = None\<rparr>,
           manifest = Some \<lparr>ResultManifest.schema = Some one_column_schema\<rparr>,
           result = Some (first_chunk_of ''B'')\<rparr>
   \<and> currentResultChunk run_A_close_B = Some (first_chunk_of ''A'')
   \<and> fst (fetchResults echo_client run_A_close_B) =
       Inr \<lparr>TFetchResultsResp.status = status_of SUCCESS_STATUS, hasMoreRows = Some False,
            results = Some \<lparr>startRowOffset = 0, rows = [],
                             TRowSet.columns = [string_column [''more of B'']],
                             columnCount = 1\<rparr>\<rparr>
   \<and> calls (snd (fetchResults echo_client run_A_close_B)) =
       calls run_A_close_B @ [GetStatementResultChunkNCall ''B'' (Some 1)]"
proof -
  let ?B = "\<lparr>statement_id = ''B'',
           ExecuteStatementResponse.status = \<lparr>state = Succeeded, error = None\<rparr>,
           manifest = Some \<lparr>ResultManifest.schema = Some one_column_schema\<rparr>,
           result = Some (first_chunk_of ''B'')\<rparr>"
  have s: "currentStatement run_A_close_B = Some ?B
      \<and> currentResultChunk run_A_close_B = Some (first_chunk_of ''A'')"
    by (simp add: run_A_close_B_def Let_def echo_executeStatement closeOperation_def
        newRestDriver_def fetchResults_def next_chunk_def first_chunk_of_def
        schema_or_default_def one_column_schema_def restJsonResultToThriftColumnar_def
        empty_column_def push_cell_def)
  have n: "next_chunk echo_client ?B run_A_close_B =
      (Inr (Some \<lparr>chunk_index = Some 1, next_chunk_index = None,
                   data_array = Some [[''more of B'']]\<rparr>),
       run_A_close_B\<lparr>calls := calls run_A_close_B @ [GetStatementResultChunkNCall ''B'' (Some 1)]\<rparr>)"
    using s
    by (simp add: next_chunk_def echo_client_def stateless_client_def echo_chunk_def
        first_chunk_of_def)
  have c: "restJsonResultToThriftColumnar (schema_or_default ?B)
       \<lparr>chunk_index = Some 1, next_chunk_index = None, data_array = Some [[''more of B'']]\<rparr> =
      Inr \<lparr>startRowOffset = 0, rows = [], TRowSet.columns = [string_column [''more of B'']],
           columnCount = 1\<rparr>"
    by (simp add: schema_or_default_def one_column_schema_def restJsonResultToThriftColumnar_def
        empty_column_def push_cell_def string_column_def)
  from s n c show ?thesis
    by (simp add: fetchResults_converts [of run_A_close_B ?B echo_client])
qed

section \<open>Session emulation\<close>

text \<open>
  \<open>openSession\<close> always succeeds and stores the request; the version it reports is the
  requested one when that is present and not zero, and the default otherwise.
\<close>

lemma openSession_protocol:
  "\<exists>r. openSession dflt request d = (Inr r, d\<lparr>session := Some request\<rparr>)
     \<and> TOpenSessionResp.status r = status_of SUCCESS_STATUS
     \<and> (client_protocol request = None \<longrightarrow> serverProtocolVersion r = dflt)
     \<and> (\<forall>v. client_protocol request = Some v \<and> v \<noteq> 0 \<longrightarrow> serverProtocolVersion r = v)
     \<and> (client_protocol request = Some 0 \<longrightarrow> serverProtocolVersion r = dflt)"
  by (simp add: openSession_def protocol_or_def)

text \<open>
  C9, evaluated at a request for protocol version 0 (the first member of the Thrift
  enumeration, \<^verbatim>\<open>HIVE_CLI_SERVICE_PROTOCOL_V1\<close>) with the default 42246
  (\<^verbatim>\<open>SPARK_CLI_SERVICE_PROTOCOL_V6\<close>): the response reports 42246, not the requested 0.
\<close>

theorem openSession_protocol_zero:
  "fst (openSession 42246 \<lparr>client_protocol = Some 0, initialNamespace = None\<rparr> (newRestDriver ())) =
     Inr \<lparr>TOpenSessionResp.status = status_of SUCCESS_STATUS,
          serverProtocolVersion = 42246,
          sessionHandle = zero_handle\<rparr>"
  by (simp add: openSession_def protocol_or_def)

end
